theory Spec2Isabelle
  imports Complex_Main
begin

section \<open>Tensors, variables and errors\<close>

text \<open>
  The module \<^verbatim>\<open>modules.py\<close> builds its layers from TensorFlow operations. A tensor of
  floating-point numbers is modelled as a nested list of reals: exact arithmetic stands for
  the float arithmetic of the library, so equalities proved here are the equalities of the
  computation before rounding. Sequence data has the layout \<^verbatim>\<open>[batch, time, channels]\<close>.

  A TensorFlow variable (\<^verbatim>\<open>tf.get_variable\<close>, \<^verbatim>\<open>tf.Variable\<close>, the kernels and biases that
  \<^verbatim>\<open>tf.layers\<close> creates) is modelled as a function from indices to reals: the code fixes
  the shape of each variable from its arguments, and training fixes nothing about the
  contents. The errors of the library are values of the type \<open>error\<close>.
\<close>

type_synonym vec = "real list"
type_synonym tensor2 = "real list list"
type_synonym tensor3 = "real list list list"
type_synonym tensor4 = "real list list list list"

datatype error = IndexError | ValueError

section \<open>embed\<close>

text \<open>
  \<^verbatim>\<open>tf.get_variable('lookup_table', shape=[vocab_size, num_units])\<close>: the stored matrix,
  read out at the shape the code asks for.
\<close>

definition get_variable :: "(nat \<Rightarrow> nat \<Rightarrow> real) \<Rightarrow> nat \<Rightarrow> nat \<Rightarrow> tensor2" where
  "get_variable store rows cols = map (\<lambda>i. map (store i) [0..<cols]) [0..<rows]"

text \<open>\<^verbatim>\<open>tf.zeros(shape=[rows, cols])\<close>.\<close>

definition zeros :: "nat \<Rightarrow> nat \<Rightarrow> tensor2" where
  "zeros rows cols = replicate rows (replicate cols 0)"

text \<open>
  \<^verbatim>\<open>tf.nn.embedding_lookup(params, ids)\<close> gathers rows of \<open>params\<close>. An id outside
  \<^verbatim>\<open>[0, rows)\<close> is rejected (the behaviour of the gather kernel on the CPU); the ids are
  \<^verbatim>\<open>int32\<close>/\<^verbatim>\<open>int64\<close> values laid out as \<^verbatim>\<open>[batch, time]\<close>, so they are integers and may
  be negative.
\<close>

definition embedding_lookup :: "tensor2 \<Rightarrow> int list list \<Rightarrow> error + tensor3" where
  "embedding_lookup params ids =
     (if list_all (list_all (\<lambda>i. 0 \<le> i \<and> i < int (length params))) ids
      then Inr (map (map (\<lambda>i. params ! nat i)) ids)
      else Inl IndexError)"

text \<open>
  Lines 34 to 40 of the source: the table that the lookup reads. With \<open>zero_pad\<close> it is
  \<^verbatim>\<open>tf.concat((tf.zeros(shape=[1, num_units]), lookup_table[1:, :]), 0)\<close>.
\<close>

definition lookup_table :: "(nat \<Rightarrow> nat \<Rightarrow> real) \<Rightarrow> nat \<Rightarrow> nat \<Rightarrow> bool \<Rightarrow> tensor2" where
  "lookup_table store vocab_size num_units zero_pad =
     (let table = get_variable store vocab_size num_units
      in if zero_pad then zeros 1 num_units @ drop 1 table else table)"

definition embed ::
  "(nat \<Rightarrow> nat \<Rightarrow> real) \<Rightarrow> int list list \<Rightarrow> nat \<Rightarrow> nat \<Rightarrow> bool \<Rightarrow> error + tensor3" where
  "embed store inputs vocab_size num_units zero_pad =
     embedding_lookup (lookup_table store vocab_size num_units zero_pad) inputs"

section \<open>normalize\<close>

text \<open>
  \<^verbatim>\<open>tf.nn.moments\<close> computes the mean and the population variance (the mean of the squared
  differences from the mean); \<^verbatim>\<open>tf.rsqrt\<close> is the reciprocal of the square root. At 0 and
  below \<^verbatim>\<open>tf.rsqrt\<close> gives an infinity or a NaN, which the reals do not have: \<open>rsqrt\<close> stands
  for \<^verbatim>\<open>tf.rsqrt\<close> at positive arguments only, and the theorems about the normalised tensor
  assume a positive \<open>epsilon\<close>, which keeps the argument positive.
\<close>

definition reduce_mean :: "vec \<Rightarrow> real" where
  "reduce_mean xs = sum_list xs / real (length xs)"

definition variance :: "vec \<Rightarrow> real" where
  "variance xs = reduce_mean (map (\<lambda>a. (a - reduce_mean xs)\<^sup>2) xs)"

definition rsqrt :: "real \<Rightarrow> real" where
  "rsqrt a = 1 / sqrt a"

text \<open>
  \<^verbatim>\<open>tf.nn.moments(inputs, [reduction_axis], keep_dims=True)\<close> on a \<^verbatim>\<open>[batch, time, channels]\<close>
  tensor, read where broadcasting reads it for the element \<open>(n, t, c)\<close>: with axis \<open>-1\<close> the
  statistics of the channel vector at \<open>(n, t)\<close>, with axis \<open>1\<close> those of channel \<open>c\<close> along the
  time axis of sequence \<open>n\<close>.
\<close>

definition moments :: "tensor3 \<Rightarrow> int \<Rightarrow> nat \<Rightarrow> nat \<Rightarrow> nat \<Rightarrow> real \<times> real" where
  "moments inputs reduction_axis n t c =
     (let xs = (if reduction_axis = - 1 then inputs ! n ! t else map (\<lambda>p. p ! c) (inputs ! n))
      in (reduce_mean xs, variance xs))"

text \<open>Line 106: \<^verbatim>\<open>normalized = (inputs - mean) * tf.rsqrt(variance + epsilon)\<close>.\<close>

definition normalized :: "tensor3 \<Rightarrow> int \<Rightarrow> real \<Rightarrow> tensor3" where
  "normalized inputs reduction_axis epsilon =
     map (\<lambda>n. map (\<lambda>t. map (\<lambda>c.
            (inputs ! n ! t ! c - fst (moments inputs reduction_axis n t c))
              * rsqrt (snd (moments inputs reduction_axis n t c) + epsilon))
          [0..<length (inputs ! n ! t)])
        [0..<length (inputs ! n)])
      [0..<length inputs]"

text \<open>
  Line 108: \<^verbatim>\<open>masks = tf.sign(tf.abs(tf.reduce_sum(inputs, -1, keep_dims=True)))\<close>, of shape
  \<^verbatim>\<open>[batch, time, 1]\<close>, and line 109: \<^verbatim>\<open>normalized *= masks\<close>, which broadcasts the mask over the
  channels.
\<close>

definition masks :: "tensor3 \<Rightarrow> tensor3" where
  "masks inputs = map (map (\<lambda>p. [sgn \<bar>sum_list p\<bar>])) inputs"

definition mul_masks :: "tensor3 \<Rightarrow> tensor3 \<Rightarrow> tensor3" where
  "mul_masks x m =
     map (\<lambda>n. map (\<lambda>t. map (\<lambda>a. a * m ! n ! t ! 0) (x ! n ! t)) [0..<length (x ! n)])
       [0..<length x]"

text \<open>
  Line 110: \<^verbatim>\<open>outputs = gamma * normalized + beta\<close>; \<open>gamma\<close> and \<open>beta\<close> have the shape of the
  channel axis and are broadcast over batch and time.
\<close>

definition scale_shift :: "(nat \<Rightarrow> real) \<Rightarrow> (nat \<Rightarrow> real) \<Rightarrow> tensor3 \<Rightarrow> tensor3" where
  "scale_shift g b x = map (map (\<lambda>p. map (\<lambda>c. g c * p ! c + b c) [0..<length p])) x"

text \<open>
  \<^verbatim>\<open>tf.layers.batch_normalization\<close> on a rank-4 tensor with the channels last: in training
  mode each channel is normalised with the statistics of the batch (over every axis but the
  last), in inference mode with the moving statistics; the library's \<open>epsilon\<close> is
  \<open>0.001\<close>, and a learned scale and offset follow.
\<close>

record bn_variables =
  bn_gamma :: "nat \<Rightarrow> real"
  bn_beta :: "nat \<Rightarrow> real"
  moving_mean :: "nat \<Rightarrow> real"
  moving_variance :: "nat \<Rightarrow> real"

definition batch_normalization :: "bn_variables \<Rightarrow> bool \<Rightarrow> tensor4 \<Rightarrow> tensor4" where
  "batch_normalization v training x =
     (let rows = concat (concat x);
          mean = (\<lambda>c. if training then reduce_mean (map (\<lambda>r. r ! c) rows) else moving_mean v c);
          var = (\<lambda>c. if training then variance (map (\<lambda>r. r ! c) rows) else moving_variance v c)
      in map (map (map (\<lambda>p. map (\<lambda>c.
           (p ! c - mean c) * rsqrt (var c + 1 / 1000) * bn_gamma v c + bn_beta v c)
           [0..<length p]))) x)"

text \<open>
  \<^verbatim>\<open>tf.expand_dims(x, axis=1)\<close> and \<^verbatim>\<open>tf.squeeze(x, axis=1)\<close> between the layouts
  \<^verbatim>\<open>[batch, time, channels]\<close> and \<^verbatim>\<open>[batch, 1, time, channels]\<close>; squeezing an axis whose
  length is not 1 is an error.
\<close>

definition expand_dims :: "tensor3 \<Rightarrow> tensor4" where
  "expand_dims x = map (\<lambda>s. [s]) x"

definition squeeze :: "tensor4 \<Rightarrow> error + tensor3" where
  "squeeze x = (if list_all (\<lambda>s. length s = 1) x then Inr (map hd x) else Inl ValueError)"

text \<open>
  The variables of \<open>normalize\<close>: \<open>beta\<close> and \<open>gamma\<close> of lines 104 and 105 (created as zeros
  and ones, then trained), and those of the batch normalisation layer.
\<close>

record norm_variables =
  beta :: "nat \<Rightarrow> real"
  gamma :: "nat \<Rightarrow> real"
  bn :: bn_variables

text \<open>
  The function \<open>normalize\<close> on a rank-3 tensor, the rank that \<open>conv1d\<close> and
  \<open>conv1d_transpose\<close> pass: of the rank tests of lines 76 to 91 the branch
  \<^verbatim>\<open>inputs_rank == 3\<close> is the one taken. The argument \<open>type\<close> is any Python value; \<open>None\<close>
  stands for \<^verbatim>\<open>None\<close> and \<open>Some s\<close> for the string \<open>s\<close>, compared with \<^verbatim>\<open>==\<close> as the source
  does. The defaults of the source are \<^verbatim>\<open>type="bn"\<close>, \<^verbatim>\<open>epsilon=1e-8\<close>, \<^verbatim>\<open>training=True\<close>,
  \<^verbatim>\<open>masking=False\<close>.
\<close>

definition normalize ::
  "norm_variables \<Rightarrow> tensor3 \<Rightarrow> string option \<Rightarrow> real \<Rightarrow> bool \<Rightarrow> bool \<Rightarrow> error + tensor3" where
  "normalize vars inputs type epsilon training masking =
     (if type = Some ''bn'' then
        squeeze (batch_normalization (bn vars) training (expand_dims inputs))
      else if type = Some ''ln'' \<or> type = Some ''ins'' then
        (let reduction_axis = (if type = Some ''ln'' then - 1 else 1);
             normalized = normalized inputs reduction_axis epsilon;
             normalized = (if masking then mul_masks normalized (masks inputs) else normalized)
         in Inr (scale_shift (gamma vars) (beta vars) normalized))
      else Inr inputs)"

section \<open>highwaynet\<close>

text \<open>
  The static size of the last axis, \<^verbatim>\<open>inputs.get_shape()[-1]\<close>: the length of the channel
  vectors. (A tensor without any position carries no channel vector, and 0 is returned.)
\<close>

definition last_dim :: "tensor3 \<Rightarrow> nat" where
  "last_dim x = (case concat x of [] \<Rightarrow> 0 | p # ps \<Rightarrow> length p)"

definition relu :: "real \<Rightarrow> real" where
  "relu a = max 0 a"

definition sigmoid :: "real \<Rightarrow> real" where
  "sigmoid a = 1 / (1 + exp (- a))"

text \<open>
  \<^verbatim>\<open>tf.layers.dense(inputs, units, activation)\<close>: at every position the channel vector is
  multiplied with the kernel of shape \<^verbatim>\<open>[channels, units]\<close>, the bias is added and the
  activation applied.
\<close>

record dense_variables =
  dense_kernel :: "nat \<Rightarrow> nat \<Rightarrow> real"
  dense_bias :: "nat \<Rightarrow> real"

definition dense :: "dense_variables \<Rightarrow> tensor3 \<Rightarrow> nat \<Rightarrow> (real \<Rightarrow> real) \<Rightarrow> tensor3" where
  "dense v inputs units activation =
     map (map (\<lambda>p. map (\<lambda>u.
        activation (sum_list (map (\<lambda>c. p ! c * dense_kernel v c u) [0..<length p]) + dense_bias v u))
        [0..<units])) inputs"

text \<open>
  An elementwise operation of two tensors that agree on batch and time; on the channel
  axis a vector of length 1 is broadcast, as TensorFlow does.
\<close>

definition broadcast :: "(real \<Rightarrow> real \<Rightarrow> real) \<Rightarrow> vec \<Rightarrow> vec \<Rightarrow> vec" where
  "broadcast f a b =
     (if length a = length b then map2 f a b
      else if length a = 1 then map (f (hd a)) b
      else map (\<lambda>x. f x (hd b)) a)"

definition tensor_op :: "(real \<Rightarrow> real \<Rightarrow> real) \<Rightarrow> tensor3 \<Rightarrow> tensor3 \<Rightarrow> tensor3" where
  "tensor_op f x y = map2 (map2 (broadcast f)) x y"

text \<open>Lines 138 and 139: \<^verbatim>\<open>C = 1. - T\<close> and \<^verbatim>\<open>outputs = H * T + inputs * C\<close>.\<close>

definition highway_output :: "tensor3 \<Rightarrow> tensor3 \<Rightarrow> tensor3 \<Rightarrow> tensor3" where
  "highway_output H T inputs =
     (let C = map (map (map (\<lambda>g. 1 - g))) T
      in tensor_op (+) (tensor_op (*) H T) (tensor_op (*) inputs C))"

text \<open>
  \<open>highwaynet\<close>. \<^verbatim>\<open>if not num_units\<close> holds for \<^verbatim>\<open>None\<close> and for 0. The two dense layers own
  their variables (\<^verbatim>\<open>dense1\<close>, \<^verbatim>\<open>dense2\<close>). The shapes \<^verbatim>\<open>[N, T, num_units]\<close> and \<^verbatim>\<open>[N, T, W]\<close>
  must be equal or broadcast; otherwise building the sum fails.
\<close>

definition highwaynet ::
  "dense_variables \<Rightarrow> dense_variables \<Rightarrow> tensor3 \<Rightarrow> nat option \<Rightarrow> error + tensor3" where
  "highwaynet dense1 dense2 inputs num_units =
     (let num_units = (case num_units of None \<Rightarrow> last_dim inputs
                        | Some u \<Rightarrow> if u = 0 then last_dim inputs else u);
          H = dense dense1 inputs num_units relu;
          T = dense dense2 inputs num_units sigmoid
      in if num_units = last_dim inputs \<or> num_units = 1 \<or> last_dim inputs = 1
         then Inr (highway_output H T inputs)
         else Inl ValueError)"

section \<open>conv1d\<close>

text \<open>Python's \<^verbatim>\<open>str.lower\<close> on the ASCII letters.\<close>

definition lower_char :: "char \<Rightarrow> char" where
  "lower_char c =
     (case map_of (zip ''ABCDEFGHIJKLMNOPQRSTUVWXYZ'' ''abcdefghijklmnopqrstuvwxyz'') c of
        Some d \<Rightarrow> d | None \<Rightarrow> c)"

definition lower :: "string \<Rightarrow> string" where
  "lower s = map lower_char s"

text \<open>
  \<^verbatim>\<open>tf.pad(inputs, [[0, 0], [before, after], [0, 0]])\<close>: zero vectors before and after every
  sequence.
\<close>

definition pad :: "tensor3 \<Rightarrow> nat \<Rightarrow> nat \<Rightarrow> tensor3" where
  "pad inputs before after =
     map (\<lambda>s. replicate before (replicate (last_dim inputs) 0) @ s
               @ replicate after (replicate (last_dim inputs) 0)) inputs"

text \<open>
  The variables of a convolution layer: the kernel of shape
  \<^verbatim>\<open>[kernel_size, in_channels, filters]\<close> and the bias of shape \<^verbatim>\<open>[filters]\<close>.
\<close>

record conv_variables =
  conv_kernel :: "nat \<Rightarrow> nat \<Rightarrow> nat \<Rightarrow> real"
  conv_bias :: "nat \<Rightarrow> real"

text \<open>
  The dilated convolution of one sequence without padding: output \<open>t\<close> reads the inputs
  \<open>t + j * dilation_rate\<close> for \<open>j < kernel_size\<close>, so a sequence of length \<open>L\<close> gives
  \<open>L - (kernel_size - 1) * dilation_rate\<close> outputs.
\<close>

definition conv_valid ::
  "conv_variables \<Rightarrow> nat \<Rightarrow> nat \<Rightarrow> nat \<Rightarrow> bool \<Rightarrow> tensor2 \<Rightarrow> tensor2" where
  "conv_valid v filters kernel_size dilation_rate use_bias s =
     map (\<lambda>t. map (\<lambda>o'.
            sum_list (map (\<lambda>j.
               sum_list (map (\<lambda>c. s ! (t + j * dilation_rate) ! c * conv_kernel v j c o')
                  [0..<length (s ! (t + j * dilation_rate))]))
               [0..<kernel_size])
            + (if use_bias then conv_bias v o' else 0))
          [0..<filters])
       [0..<length s - (kernel_size - 1) * dilation_rate]"

text \<open>
  \<^verbatim>\<open>tf.layers.conv1d\<close> with stride 1. The padding is compared in lower case and must be
  \<^verbatim>\<open>valid\<close> or \<^verbatim>\<open>same\<close>; kernel size and dilation rate must be positive. With \<^verbatim>\<open>valid\<close> a
  sequence shorter than the span of the kernel has no output shape (the rule of the
  convolution kernel for a time axis whose length is known at run time: an output length
  below 0 is an error, the output length 0 is an empty sequence). With \<^verbatim>\<open>same\<close> the span
  \<open>(kernel_size - 1) * dilation_rate\<close> is padded with zeros, half of it (rounded down)
  before the sequence and the rest after it.
\<close>

definition layers_conv1d ::
  "conv_variables \<Rightarrow> tensor3 \<Rightarrow> nat \<Rightarrow> nat \<Rightarrow> nat \<Rightarrow> string \<Rightarrow> bool \<Rightarrow> error + tensor3" where
  "layers_conv1d v inputs filters kernel_size dilation_rate padding use_bias =
     (let span = (kernel_size - 1) * dilation_rate in
      if kernel_size = 0 \<or> dilation_rate = 0 then Inl ValueError
      else if lower padding = ''valid'' then
        (if list_all (\<lambda>s. span \<le> length s) inputs
         then Inr (map (conv_valid v filters kernel_size dilation_rate use_bias) inputs)
         else Inl ValueError)
      else if lower padding = ''same'' then
        Inr (map (conv_valid v filters kernel_size dilation_rate use_bias)
               (pad inputs (span div 2) (span - span div 2)))
      else Inl ValueError)"

text \<open>
  \<^verbatim>\<open>tf.layers.dropout(tensor, rate, training)\<close>. Outside training it is the identity. In
  training the rate must lie in \<open>[0, 1)\<close>; the elements that the random draw keeps are
  divided by \<open>1 - rate\<close> and the others are 0. The draw is the argument \<open>keep\<close>.
\<close>

definition dropout ::
  "(nat \<Rightarrow> nat \<Rightarrow> nat \<Rightarrow> bool) \<Rightarrow> tensor3 \<Rightarrow> real \<Rightarrow> bool \<Rightarrow> error + tensor3" where
  "dropout keep x rate training =
     (if \<not> training then Inr x
      else if rate < 0 \<or> 1 \<le> rate then Inl ValueError
      else if rate = 0 then Inr x
      else Inr (map (\<lambda>n. map (\<lambda>t. map (\<lambda>c.
                  if keep n t c then x ! n ! t ! c / (1 - rate) else 0)
                [0..<length (x ! n ! t)])
              [0..<length (x ! n)])
            [0..<length x]))"

text \<open>
  What the steps after the convolution read: the variables of \<open>normalize\<close> and the random
  draw of the dropout.
\<close>

record post_variables =
  norm_vars :: norm_variables
  keep :: "nat \<Rightarrow> nat \<Rightarrow> nat \<Rightarrow> bool"

text \<open>
  Lines 184 to 188 (and 217 to 221): \<open>normalize\<close> with its default \<open>epsilon\<close>
  (\<^verbatim>\<open>epsilon=1e-8\<close>) and without masking, the optional activation, the dropout. An
  activation is modelled as a function of the channel vector, applied at every position;
  this covers the elementwise activations (\<^verbatim>\<open>tf.nn.relu\<close>, \<^verbatim>\<open>tf.sigmoid\<close>, \<^verbatim>\<open>tf.tanh\<close>) and a
  softmax over the channels. The source applies any callable to the whole tensor; a
  callable that mixes positions or changes the shape is outside the model, and the
  theorems on \<open>conv1d\<close> and \<open>conv1d_transpose\<close> are about activations of this kind.
\<close>

definition default_epsilon :: real where
  "default_epsilon = 1 / 10 ^ 8"

definition post_process ::
  "post_variables \<Rightarrow> tensor3 \<Rightarrow> string option \<Rightarrow> (vec \<Rightarrow> vec) option \<Rightarrow> real \<Rightarrow> bool
     \<Rightarrow> error + tensor3" where
  "post_process pv tensor norm_type activation_fn dropout_rate training =
     (case normalize (norm_vars pv) tensor norm_type default_epsilon training False of
        Inl e \<Rightarrow> Inl e
      | Inr tensor \<Rightarrow>
          (let tensor = (case activation_fn of None \<Rightarrow> tensor | Some f \<Rightarrow> map (map f) tensor)
           in dropout (keep pv) tensor dropout_rate training))"

text \<open>
  \<open>conv1d\<close>. The arguments \<open>size'\<close> (the source's \<^verbatim>\<open>size\<close>) and \<open>rate\<close> are natural
  numbers (the library rejects a kernel size or a dilation rate that is not positive);
  \<open>filters = None\<close> takes the channel count of the (padded) input.
\<close>

definition conv1d ::
  "conv_variables \<Rightarrow> post_variables \<Rightarrow> tensor3 \<Rightarrow> nat option \<Rightarrow> nat \<Rightarrow> nat \<Rightarrow> string \<Rightarrow> real
     \<Rightarrow> bool \<Rightarrow> string option \<Rightarrow> (vec \<Rightarrow> vec) option \<Rightarrow> bool \<Rightarrow> error + tensor3" where
  "conv1d cv pv inputs filters size' rate padding dropout_rate use_bias norm_type activation_fn
      training =
     (let causal = (lower padding = ''causal'');
          pad_len = (size' - 1) * rate;
          inputs = (if causal then pad inputs pad_len 0 else inputs);
          padding = (if causal then ''valid'' else padding);
          filters = (case filters of None \<Rightarrow> last_dim inputs | Some f \<Rightarrow> f)
      in case layers_conv1d cv inputs filters size' rate padding use_bias of
           Inl e \<Rightarrow> Inl e
         | Inr tensor \<Rightarrow> post_process pv tensor norm_type activation_fn dropout_rate training)"

section \<open>conv1d_transpose\<close>

text \<open>
  \<^verbatim>\<open>tf.layers.conv2d_transpose\<close> on \<^verbatim>\<open>[batch, height, width, channels]\<close>; the kernel has the
  shape \<^verbatim>\<open>[kernel_height, kernel_width, filters, in_channels]\<close>. The output length of an axis
  is the library's \<^verbatim>\<open>deconv_output_length\<close>: \<open>length * stride\<close> for \<^verbatim>\<open>same\<close>, and
  \<open>length * stride + max (kernel - stride) 0\<close> for \<^verbatim>\<open>valid\<close>. The operation is the transpose of
  the strided convolution: input \<open>i\<close> and kernel tap \<open>j\<close> add to output \<open>i * stride + j - before\<close>,
  where \<open>before\<close> is the padding that the convolution with \<^verbatim>\<open>same\<close> puts before the axis.
\<close>

record deconv_variables =
  deconv_kernel :: "nat \<Rightarrow> nat \<Rightarrow> nat \<Rightarrow> nat \<Rightarrow> real"
  deconv_bias :: "nat \<Rightarrow> real"

definition deconv_output_length :: "nat \<Rightarrow> nat \<Rightarrow> string \<Rightarrow> nat \<Rightarrow> nat" where
  "deconv_output_length input_length filter_size padding stride =
     (if padding = ''valid'' then input_length * stride + (filter_size - stride)
      else input_length * stride)"

definition pad_before :: "nat \<Rightarrow> string \<Rightarrow> nat \<Rightarrow> nat" where
  "pad_before filter_size padding stride =
     (if padding = ''same'' then (filter_size - stride) div 2 else 0)"

definition width :: "tensor3 \<Rightarrow> nat" where
  "width img = (case img of [] \<Rightarrow> 0 | row # rows \<Rightarrow> length row)"

definition conv2d_transpose ::
  "deconv_variables \<Rightarrow> tensor4 \<Rightarrow> nat \<Rightarrow> nat \<times> nat \<Rightarrow> nat \<times> nat \<Rightarrow> string \<Rightarrow> bool
     \<Rightarrow> error + tensor4" where
  "conv2d_transpose v inputs filters kernel_size strides padding use_bias =
     (let kh = fst kernel_size; kw = snd kernel_size; sh = fst strides; sw = snd strides;
          p = lower padding
      in if kh = 0 \<or> kw = 0 \<or> sh = 0 \<or> sw = 0 \<or> (p \<noteq> ''same'' \<and> p \<noteq> ''valid'')
         then Inl ValueError
         else Inr (map (\<lambda>img.
           map (\<lambda>h. map (\<lambda>w. map (\<lambda>o'.
             sum_list (map (\<lambda>ih. sum_list (map (\<lambda>iw.
               sum_list (map (\<lambda>jh. sum_list (map (\<lambda>jw.
                 if ih * sh + jh = h + pad_before kh p sh \<and> iw * sw + jw = w + pad_before kw p sw
                 then sum_list (map (\<lambda>c. img ! ih ! iw ! c * deconv_kernel v jh jw o' c)
                        [0..<length (img ! ih ! iw)])
                 else 0)
                 [0..<kw])) [0..<kh]))
               [0..<length (img ! ih)])) [0..<length img])
             + (if use_bias then deconv_bias v o' else 0))
             [0..<filters])
             [0..<deconv_output_length (width img) kw p sw])
             [0..<deconv_output_length (length img) kh p sh])
           inputs))"

text \<open>
  \<open>conv1d_transpose\<close>: the sequence as an image of height 1, the transposed convolution
  with kernel \<open>(1, size')\<close> and strides \<open>(1, stride)\<close>, the height squeezed away, and the same
  steps after it as in \<open>conv1d\<close>. \<^verbatim>\<open>filters is None\<close> takes the channel count of the input.
\<close>

definition conv1d_transpose ::
  "deconv_variables \<Rightarrow> post_variables \<Rightarrow> tensor3 \<Rightarrow> nat option \<Rightarrow> nat \<Rightarrow> nat \<Rightarrow> string \<Rightarrow> real
     \<Rightarrow> string option \<Rightarrow> (vec \<Rightarrow> vec) option \<Rightarrow> bool \<Rightarrow> bool \<Rightarrow> error + tensor3" where
  "conv1d_transpose dv pv inputs filters size' stride padding dropout_rate norm_type activation
      training use_bias =
     (let filters = (case filters of None \<Rightarrow> last_dim inputs | Some f \<Rightarrow> f);
          inputs = expand_dims inputs
      in case conv2d_transpose dv inputs filters (1, size') (1, stride) padding use_bias of
           Inl e \<Rightarrow> Inl e
         | Inr tensor \<Rightarrow>
             (case squeeze tensor of
                Inl e \<Rightarrow> Inl e
              | Inr tensor \<Rightarrow> post_process pv tensor norm_type activation dropout_rate training))"

text \<open>
  The variables as they are created: \<open>beta\<close> zeros and \<open>gamma\<close> ones (lines 104 and 105),
  and the initial values of the batch normalisation layer.
\<close>

definition initial_variables :: norm_variables where
  "initial_variables =
     \<lparr>beta = (\<lambda>c. 0), gamma = (\<lambda>c. 1),
      bn = \<lparr>bn_gamma = (\<lambda>c. 1), bn_beta = (\<lambda>c. 0),
            moving_mean = (\<lambda>c. 0), moving_variance = (\<lambda>c. 1)\<rparr>\<rparr>"

section \<open>Shapes\<close>

text \<open>The shape of a tensor: the length of the channel vector at every position.\<close>

definition shape :: "tensor3 \<Rightarrow> nat list list" where
  "shape x = map (map length) x"

section \<open>Properties of embed\<close>

lemma length_get_variable: "length (get_variable store rows cols) = rows"
  by (simp add: get_variable_def)

lemma lookup_table_zero_pad:
  "lookup_table store vocab_size num_units True =
     replicate num_units 0 # map (\<lambda>i. map (store i) [0..<num_units]) [1..<vocab_size]"
  by (simp add: lookup_table_def get_variable_def zeros_def drop_map drop_upt)

lemma length_lookup_table:
  "length (lookup_table store vocab_size num_units zero_pad) =
     (if zero_pad then max vocab_size 1 else vocab_size)"
  by (auto simp: lookup_table_def get_variable_def zeros_def)

lemma length_row_lookup_table:
  "i < length (lookup_table store vocab_size num_units zero_pad) \<Longrightarrow>
     length (lookup_table store vocab_size num_units zero_pad ! i) = num_units"
  by (cases zero_pad; cases i)
     (auto simp: lookup_table_def get_variable_def zeros_def Let_def nth_append drop_map drop_upt)

lemma embedding_lookup_Inr:
  "embedding_lookup params ids = Inr out \<Longrightarrow> out = map (map (\<lambda>i. params ! nat i)) ids"
  by (simp add: embedding_lookup_def split: if_splits)

text \<open>
  Claim C2 (zero-pad invariant). With \<open>zero_pad\<close> the table that is looked up is a fresh
  zero row followed by the stored rows \<open>1 .. vocab_size - 1\<close>, whatever the store holds;
  the id 0 alone is embedded as the zero vector of length \<open>num_units\<close>, and so is every
  position of any accepted input that holds the id 0. This holds for every \<open>vocab_size\<close>
  and \<open>num_units\<close>, in particular for those that are at least 1.
\<close>

theorem embed_zero_pad:
  "lookup_table store vocab_size num_units True =
     replicate num_units 0 # map (\<lambda>i. map (store i) [0..<num_units]) [1..<vocab_size]
   \<and> embed store [[0]] vocab_size num_units True = Inr [[replicate num_units 0]]
   \<and> (\<forall>out b t. embed store inputs vocab_size num_units True = Inr out
          \<and> b < length inputs \<and> t < length (inputs ! b) \<and> inputs ! b ! t = 0
        \<longrightarrow> out ! b ! t = replicate num_units 0)"
proof (intro conjI allI impI)
  show "lookup_table store vocab_size num_units True =
     replicate num_units 0 # map (\<lambda>i. map (store i) [0..<num_units]) [1..<vocab_size]"
    by (rule lookup_table_zero_pad)
  show "embed store [[0]] vocab_size num_units True = Inr [[replicate num_units 0]]"
    by (simp add: embed_def embedding_lookup_def lookup_table_zero_pad)
next
  fix out b t
  assume a: "embed store inputs vocab_size num_units True = Inr out
          \<and> b < length inputs \<and> t < length (inputs ! b) \<and> inputs ! b ! t = 0"
  then have "out = map (map (\<lambda>i. lookup_table store vocab_size num_units True ! nat i)) inputs"
    by (simp add: embed_def embedding_lookup_Inr)
  with a show "out ! b ! t = replicate num_units 0"
    by (simp add: lookup_table_zero_pad)
qed

theorem embed_zero_pad_witness:
  "embed (\<lambda>i j. 7) [[2, 0]] 3 2 True = Inr [[[7, 7], [0, 0]]]
   \<and> [[[7, 7], [0, 0 :: real]]] ! 0 ! 1 = replicate 2 0"
proof -
  have e: "embed (\<lambda>i j. 7) [[2, 0]] 3 2 True = Inr [[[7, 7], [0, 0]]]"
    by (simp add: embed_def embedding_lookup_def lookup_table_zero_pad upt_rec numeral_2_eq_2)
  from embed_zero_pad [of "\<lambda>i j. 7" 3 2 "[[2, 0]]"] e
  have "[[[7, 7], [0, 0 :: real]]] ! 0 ! 1 = replicate 2 0"
    by (simp add: numeral_2_eq_2)
  with e show ?thesis by simp
qed

text \<open>
  Claim C9 (out-of-range ids), as the code has it. The lookup reads a table of \<open>n\<close> rows,
  where \<open>n\<close> is \<open>vocab_size\<close> without \<open>zero_pad\<close> and \<open>max vocab_size 1\<close> with it (the zero
  row is always there). \<open>embed\<close> fails exactly when some id lies outside \<open>[0, n)\<close>, the
  failure is an \<open>IndexError\<close>, and otherwise the result has the shape of the ids with one
  more axis of length \<open>num_units\<close>.
\<close>

theorem embed_index_error:
  "(embed store inputs vocab_size num_units zero_pad = Inl IndexError) =
     (\<not> list_all (list_all (\<lambda>i. 0 \<le> i
          \<and> i < int (if zero_pad then max vocab_size 1 else vocab_size))) inputs)
   \<and> embed store inputs vocab_size num_units zero_pad \<noteq> Inl ValueError
   \<and> (\<forall>out. embed store inputs vocab_size num_units zero_pad = Inr out
        \<longrightarrow> map (map length) out = map (map (\<lambda>i. num_units)) inputs)"
proof (intro conjI allI impI)
  show "(embed store inputs vocab_size num_units zero_pad = Inl IndexError) =
     (\<not> list_all (list_all (\<lambda>i. 0 \<le> i
          \<and> i < int (if zero_pad then max vocab_size 1 else vocab_size))) inputs)"
    by (simp add: embed_def embedding_lookup_def length_lookup_table)
  show "embed store inputs vocab_size num_units zero_pad \<noteq> Inl ValueError"
    by (simp add: embed_def embedding_lookup_def)
next
  fix out
  assume a: "embed store inputs vocab_size num_units zero_pad = Inr out"
  let ?T = "lookup_table store vocab_size num_units zero_pad"
  from a have ok: "list_all (list_all (\<lambda>i. 0 \<le> i \<and> i < int (length ?T))) inputs"
    by (simp add: embed_def embedding_lookup_def split: if_splits)
  from a have out: "out = map (map (\<lambda>i. ?T ! nat i)) inputs"
    by (simp add: embed_def embedding_lookup_Inr)
  have "length (?T ! nat i) = num_units" if "b \<in> set inputs" "i \<in> set b" for b i
  proof -
    from ok that have "0 \<le> i \<and> i < int (length ?T)"
      by (auto simp: list_all_iff)
    then have "nat i < length ?T" by linarith
    then show ?thesis by (rule length_row_lookup_table)
  qed
  with out show "map (map length) out = map (map (\<lambda>i. num_units)) inputs"
    by simp
qed

theorem embed_index_error_witness:
  "embed (\<lambda>i j. 7) [[1, 3]] 3 2 False = Inl IndexError
   \<and> embed (\<lambda>i j. 7) [[1, 2]] 3 2 False = Inr [[[7, 7], [7, 7]]]
   \<and> map (map length) [[[7, 7], [7, 7 :: real]]] = map (map (\<lambda>i. 2)) [[1, 2 :: int]]"
proof -
  have e: "embed (\<lambda>i j. 7) [[1, 2]] 3 2 False = Inr [[[7, 7], [7, 7]]]"
    by (simp add: embed_def embedding_lookup_def lookup_table_def get_variable_def upt_rec)
  from embed_index_error [of "\<lambda>i j. 7" "[[1, 3]]" 3 2 False]
  have f: "embed (\<lambda>i j. 7) [[1, 3]] 3 2 False = Inl IndexError"
    by simp
  from embed_index_error [of "\<lambda>i j. 7" "[[1, 2]]" 3 2 False] e
  have "map (map length) [[[7, 7], [7, 7 :: real]]] = map (map (\<lambda>i. 2)) [[1, 2 :: int]]"
    by blast
  with e f show ?thesis by simp
qed

text \<open>
  The claim as stated fails for an empty vocabulary with \<open>zero_pad\<close>: the id 0 is outside
  \<open>[0, 0)\<close>, and yet it is looked up in the zero row.
\<close>

theorem embed_index_error_counterexample:
  "embed (\<lambda>i j. 7) [[0]] 0 2 True = Inr [[[0, 0]]]
   \<and> \<not> (0 \<le> (0::int) \<and> (0::int) < int 0)"
  by (simp add: embed_def embedding_lookup_def lookup_table_def get_variable_def zeros_def
        numeral_2_eq_2)

section \<open>Properties of normalize\<close>

lemma length_normalized [simp]: "length (normalized x ax e) = length x"
  by (simp add: normalized_def)

lemma length_normalized_seq [simp]:
  "n < length x \<Longrightarrow> length (normalized x ax e ! n) = length (x ! n)"
  by (simp add: normalized_def)

lemma length_normalized_pos [simp]:
  "n < length x \<Longrightarrow> t < length (x ! n) \<Longrightarrow>
     length (normalized x ax e ! n ! t) = length (x ! n ! t)"
  by (simp add: normalized_def)

lemma mul_masks_nth:
  "n < length x \<Longrightarrow> t < length (x ! n) \<Longrightarrow>
     mul_masks x m ! n ! t = map (\<lambda>a. a * m ! n ! t ! 0) (x ! n ! t)"
  by (simp add: mul_masks_def)

lemma length_mul_masks [simp]: "length (mul_masks x m) = length x"
  by (simp add: mul_masks_def)

lemma length_mul_masks_seq [simp]: "n < length x \<Longrightarrow> length (mul_masks x m ! n) = length (x ! n)"
  by (simp add: mul_masks_def)

lemma masks_nth:
  "n < length x \<Longrightarrow> t < length (x ! n) \<Longrightarrow> masks x ! n ! t = [sgn \<bar>sum_list (x ! n ! t)\<bar>]"
  by (simp add: masks_def)

lemma scale_shift_nth:
  "n < length x \<Longrightarrow> t < length (x ! n) \<Longrightarrow>
     scale_shift g b x ! n ! t = map (\<lambda>c. g c * x ! n ! t ! c + b c) [0..<length (x ! n ! t)]"
  by (simp add: scale_shift_def)

text \<open>At a position whose channel vector sums to 0 the mask is 0 and clears the vector.\<close>

lemma masked_zero_sum:
  assumes "n < length x" "t < length (x ! n)" "sum_list (x ! n ! t) = 0"
  shows "mul_masks (normalized x ax e) (masks x) ! n ! t = replicate (length (x ! n ! t)) 0"
  using assms by (simp add: mul_masks_nth masks_nth map_replicate_const)

lemma normalize_masking_eq:
  "type = Some ''ln'' \<or> type = Some ''ins'' \<Longrightarrow>
     normalize vars x type e tr True =
       Inr (scale_shift (gamma vars) (beta vars)
             (mul_masks (normalized x (if type = Some ''ln'' then - 1 else 1) e) (masks x)))"
  by (auto simp: normalize_def Let_def)

lemma normalize_masked_zero_sum:
  assumes ty: "type = Some ''ln'' \<or> type = Some ''ins''"
    and n: "n < length x" and t: "t < length (x ! n)" and z: "sum_list (x ! n ! t) = 0"
  shows "\<exists>out. normalize vars x type e tr True = Inr out
           \<and> out ! n ! t = map (beta vars) [0..<length (x ! n ! t)]"
proof -
  define ax :: int where "ax = (if type = Some ''ln'' then - 1 else 1)"
  define m where "m = mul_masks (normalized x ax e) (masks x)"
  have m: "m ! n ! t = replicate (length (x ! n ! t)) 0"
    unfolding m_def using n t z by (rule masked_zero_sum)
  have l: "n < length m" "t < length (m ! n)"
    using n t by (simp_all add: m_def)
  have "scale_shift (gamma vars) (beta vars) m ! n ! t = map (beta vars) [0..<length (x ! n ! t)]"
    using l by (simp add: scale_shift_nth m)
  moreover have "normalize vars x type e tr True = Inr (scale_shift (gamma vars) (beta vars) m)"
    unfolding m_def ax_def using ty by (rule normalize_masking_eq)
  ultimately show ?thesis by simp
qed

lemma map_upt_eq_replicate:
  "(map f [0..<k] = replicate k (0::real)) = (\<forall>c<k. f c = 0)"
  by (auto simp: list_eq_iff_nth_eq)

text \<open>The statistics of a vector that was centred and scaled.\<close>

lemma normalized_layer_nth:
  assumes "n < length x" "t < length (x ! n)"
  shows "normalized x (- 1) e ! n ! t =
     map (\<lambda>a. (a - reduce_mean (x ! n ! t)) * rsqrt (variance (x ! n ! t) + e)) (x ! n ! t)"
proof -
  have "normalized x (- 1) e ! n ! t =
     map (\<lambda>c. (x ! n ! t ! c - reduce_mean (x ! n ! t)) * rsqrt (variance (x ! n ! t) + e))
       [0..<length (x ! n ! t)]"
    using assms by (simp add: normalized_def moments_def Let_def)
  also have "\<dots> = map (\<lambda>a. (a - reduce_mean (x ! n ! t)) * rsqrt (variance (x ! n ! t) + e))
       (map (\<lambda>c. x ! n ! t ! c) [0..<length (x ! n ! t)])"
    by (simp add: comp_def)
  finally show ?thesis by (simp add: map_nth)
qed

lemma sum_list_shift_scale:
  "sum_list (map (\<lambda>a. (a - m) * r) p) = (sum_list p - real (length p) * m) * (r::real)"
  by (induction p) (simp_all add: algebra_simps)

lemma reduce_mean_centred:
  "p \<noteq> [] \<Longrightarrow> reduce_mean (map (\<lambda>a. (a - reduce_mean p) * r) p) = 0"
  by (simp add: reduce_mean_def sum_list_shift_scale)

lemma variance_nonneg: "0 \<le> variance p"
proof -
  have "0 \<le> sum_list (map (\<lambda>a. (a - reduce_mean p)\<^sup>2) p)"
    by (rule sum_list_nonneg) auto
  then show ?thesis by (simp add: variance_def reduce_mean_def)
qed

lemma sum_list_sq_scale:
  "sum_list (map (\<lambda>a. ((a - m) * r)\<^sup>2) p) = sum_list (map (\<lambda>a. (a - m)\<^sup>2) p) * (r::real)\<^sup>2"
  by (induction p) (simp_all add: power_mult_distrib distrib_right)

lemma variance_centred:
  assumes "p \<noteq> []"
  shows "variance (map (\<lambda>a. (a - reduce_mean p) * r) p) = variance p * r\<^sup>2"
proof -
  have "variance (map (\<lambda>a. (a - reduce_mean p) * r) p) =
      sum_list (map (\<lambda>a. ((a - reduce_mean p) * r)\<^sup>2) p) / real (length p)"
    using assms by (simp add: variance_def [of "map _ _"] reduce_mean_centred comp_def)
       (simp add: reduce_mean_def)
  then show ?thesis
    by (simp add: sum_list_sq_scale variance_def [of p] reduce_mean_def [of "map _ _"])
qed

lemma rsqrt_sq: "0 < a \<Longrightarrow> (rsqrt a)\<^sup>2 = 1 / a"
  by (simp add: rsqrt_def power_divide)

lemma layer_statistics:
  assumes "n < length x" "t < length (x ! n)" "x ! n ! t \<noteq> []" "0 < e"
  shows "reduce_mean (normalized x (- 1) e ! n ! t) = 0"
    and "variance (normalized x (- 1) e ! n ! t) = variance (x ! n ! t) / (variance (x ! n ! t) + e)"
proof -
  let ?p = "x ! n ! t"
  have pos: "0 < variance ?p + e"
    using variance_nonneg [of ?p] assms(4) by linarith
  show "reduce_mean (normalized x (- 1) e ! n ! t) = 0"
    using assms by (simp add: normalized_layer_nth reduce_mean_centred)
  show "variance (normalized x (- 1) e ! n ! t) = variance ?p / (variance ?p + e)"
    using assms pos by (simp add: normalized_layer_nth variance_centred rsqrt_sq)
qed

text \<open>
  Claim C8 (permissive fallback). A \<open>type\<close> that is none of \<^verbatim>\<open>"bn"\<close>, \<^verbatim>\<open>"ln"\<close>, \<^verbatim>\<open>"ins"\<close>, be it
  \<^verbatim>\<open>None\<close> or any other string, makes \<open>normalize\<close> return its input unchanged, without an
  error, whatever the other arguments are.
\<close>

theorem normalize_unrecognised_type:
  "type \<noteq> Some ''bn'' \<Longrightarrow> type \<noteq> Some ''ln'' \<Longrightarrow> type \<noteq> Some ''ins'' \<Longrightarrow>
     normalize vars inputs type epsilon training masking = Inr inputs"
  by (simp add: normalize_def)

theorem normalize_unrecognised_type_witness:
  "normalize initial_variables [[[1, 2], [3, 4]]] None (1 / 10 ^ 8) True False
     = Inr [[[1, 2], [3, 4]]]
   \<and> normalize initial_variables [[[1, 2], [3, 4]]] (Some ''layer'') (1 / 10 ^ 8) False True
     = Inr [[[1, 2], [3, 4]]]
   \<and> normalize initial_variables [[[1, 2], [3, 4]]] (Some ''BN'') (1 / 10 ^ 8) True False
     = Inr [[[1, 2], [3, 4]]]"
  using normalize_unrecognised_type [of None initial_variables "[[[1, 2], [3, 4]]]" "1 / 10 ^ 8" True False]
    normalize_unrecognised_type [of "Some ''layer''" initial_variables "[[[1, 2], [3, 4]]]" "1 / 10 ^ 8" False True]
    normalize_unrecognised_type [of "Some ''BN''" initial_variables "[[[1, 2], [3, 4]]]" "1 / 10 ^ 8" True False]
  by simp

lemma moments_variance_positive:
  "0 < epsilon \<Longrightarrow> 0 < snd (moments inputs reduction_axis n t c) + epsilon"
  using variance_nonneg [of "if reduction_axis = - 1 then inputs ! n ! t
      else map (\<lambda>p. p ! c) (inputs ! n)"]
  by (simp add: moments_def Let_def)



text \<open>
  Claim C3 (masking invariant), as the code has it. In the modes \<^verbatim>\<open>"ln"\<close> and \<^verbatim>\<open>"ins"\<close>
  with masking and a positive \<open>epsilon\<close> (which keeps the argument of \<^verbatim>\<open>tf.rsqrt\<close> on line 106
  positive and the normalised values finite), a position whose input vector sums to 0 gets
  the zero vector as output for every scale \<open>gamma\<close>, provided the shift \<open>beta\<close> is 0 on its
  channels (as it is when the variables are created).
\<close>

theorem normalize_masking_zero:
  "type = Some ''ln'' \<or> type = Some ''ins'' \<Longrightarrow>
   n < length inputs \<Longrightarrow> t < length (inputs ! n) \<Longrightarrow> sum_list (inputs ! n ! t) = 0 \<Longrightarrow>
   0 < epsilon \<Longrightarrow>
   \<forall>c<length (inputs ! n ! t). beta vars c = 0 \<Longrightarrow>
     (\<forall>c. 0 < snd (moments inputs (if type = Some ''ln'' then - 1 else 1) n t c) + epsilon)
     \<and> (\<exists>out. normalize vars inputs type epsilon training True = Inr out
           \<and> out ! n ! t = replicate (length (inputs ! n ! t)) 0)"
proof (intro conjI allI)
  assume ty: "type = Some ''ln'' \<or> type = Some ''ins''"
    and n: "n < length inputs" and t: "t < length (inputs ! n)"
    and z: "sum_list (inputs ! n ! t) = 0"
    and e: "0 < epsilon"
    and b: "\<forall>c<length (inputs ! n ! t). beta vars c = 0"
  show "0 < snd (moments inputs (if type = Some ''ln'' then - 1 else 1) n t c) + epsilon" for c
    using e by (rule moments_variance_positive)
  from normalize_masked_zero_sum [OF ty n t z]
  obtain out where out: "normalize vars inputs type epsilon training True = Inr out"
    and o: "out ! n ! t = map (beta vars) [0..<length (inputs ! n ! t)]"
    by blast
  from o b have "out ! n ! t = replicate (length (inputs ! n ! t)) 0"
    by (simp add: map_upt_eq_replicate)
  with out show "\<exists>out. normalize vars inputs type epsilon training True = Inr out
           \<and> out ! n ! t = replicate (length (inputs ! n ! t)) 0"
    by blast
qed

theorem normalize_masking_zero_witness:
  "\<exists>out. normalize (initial_variables\<lparr>gamma := (\<lambda>c. 5)\<rparr>)
            [[[2, 3], [1, - 1]]] (Some ''ln'') (1 / 10 ^ 8) True True = Inr out
     \<and> out ! 0 ! 1 = [0, 0]"
proof -
  let ?x = "[[[2, 3], [1, - 1 :: real]]]"
  let ?v = "initial_variables\<lparr>gamma := (\<lambda>c. 5)\<rparr>"
  have ty: "Some ''ln'' = Some ''ln'' \<or> Some ''ln'' = Some ''ins''" by simp
  have n: "0 < length ?x" by simp
  have t: "1 < length (?x ! 0)" by simp
  have z: "sum_list (?x ! 0 ! 1) = 0" by simp
  have e: "(0::real) < 1 / 10 ^ 8" by simp
  have b: "\<forall>c<length (?x ! 0 ! 1). beta ?v c = 0"
    by (simp add: initial_variables_def)
  from normalize_masking_zero [OF ty n t z e b, where training = True, THEN conjunct2]
  obtain out where o: "normalize ?v ?x (Some ''ln'') (1 / 10 ^ 8) True True = Inr out"
    and r: "out ! 0 ! 1 = replicate (length (?x ! 0 ! 1)) 0"
    by blast
  from r have "out ! 0 ! 1 = [0, 0]"
    by (simp add: numeral_2_eq_2)
  with o show ?thesis by blast
qed

text \<open>
  The claim as stated fails for a shift that is not 0: the vector \<open>[1, -1]\<close> sums to 0 and
  comes out as \<open>beta\<close>.
\<close>

theorem normalize_masking_zero_counterexample:
  "normalize (initial_variables\<lparr>beta := (\<lambda>c. 1)\<rparr>) [[[1, - 1]]] (Some ''ln'') (1 / 10 ^ 8)
      True True = Inr [[[1, 1]]]
   \<and> sum_list [1, - 1 :: real] = 0"
  by (simp add: normalize_def normalized_def moments_def mul_masks_def masks_def scale_shift_def
        initial_variables_def upt_rec)

text \<open>
  Claim C6 (layer-norm statistics), as the code has it. In mode \<^verbatim>\<open>"ln"\<close> without masking the
  result is the scale and shift of the tensor \<open>normalized\<close>. At every position with at least
  one channel, and for a positive \<open>epsilon\<close>, the channel vector of \<open>normalized\<close> has mean 0 and
  variance \<open>v / (v + epsilon)\<close>, where \<open>v\<close> is the variance of the input vector at that
  position: a value in \<open>[0, 1)\<close>, which is 0 for a constant input vector.
\<close>

theorem layer_norm_statistics:
  "n < length inputs \<Longrightarrow> t < length (inputs ! n) \<Longrightarrow> inputs ! n ! t \<noteq> [] \<Longrightarrow> 0 < epsilon \<Longrightarrow>
     normalize vars inputs (Some ''ln'') epsilon training False =
       Inr (scale_shift (gamma vars) (beta vars) (normalized inputs (- 1) epsilon))
     \<and> reduce_mean (normalized inputs (- 1) epsilon ! n ! t) = 0
     \<and> variance (normalized inputs (- 1) epsilon ! n ! t) =
         variance (inputs ! n ! t) / (variance (inputs ! n ! t) + epsilon)
     \<and> 0 \<le> variance (normalized inputs (- 1) epsilon ! n ! t)
     \<and> variance (normalized inputs (- 1) epsilon ! n ! t) < 1"
proof (intro conjI)
  assume n: "n < length inputs" and t: "t < length (inputs ! n)"
    and p: "inputs ! n ! t \<noteq> []" and e: "0 < epsilon"
  show "normalize vars inputs (Some ''ln'') epsilon training False =
       Inr (scale_shift (gamma vars) (beta vars) (normalized inputs (- 1) epsilon))"
    by (simp add: normalize_def)
  show "reduce_mean (normalized inputs (- 1) epsilon ! n ! t) = 0"
    using n t p e by (rule layer_statistics)
  show v: "variance (normalized inputs (- 1) epsilon ! n ! t) =
         variance (inputs ! n ! t) / (variance (inputs ! n ! t) + epsilon)"
    using n t p e by (rule layer_statistics)
  show "0 \<le> variance (normalized inputs (- 1) epsilon ! n ! t)"
    by (rule variance_nonneg)
  show "variance (normalized inputs (- 1) epsilon ! n ! t) < 1"
    using variance_nonneg [of "inputs ! n ! t"] e by (simp add: v)
qed

theorem layer_norm_statistics_witness:
  "reduce_mean (normalized [[[1, 3]]] (- 1) (1 / 10 ^ 8) ! 0 ! 0) = 0
   \<and> variance (normalized [[[1, 3]]] (- 1) (1 / 10 ^ 8) ! 0 ! 0) = 1 / (1 + 1 / 10 ^ 8)"
proof -
  have "variance [1, 3] = 1"
    by (simp add: variance_def reduce_mean_def)
  with layer_norm_statistics [of 0 "[[[1, 3]]]" 0 "1 / 10 ^ 8"]
  show ?thesis by simp
qed

text \<open>
  The claim as stated fails at a constant vector: its normalised vector is 0 and has
  variance 0, not 1.
\<close>

theorem layer_norm_statistics_counterexample:
  "normalized [[[1, 1]]] (- 1) (1 / 10 ^ 8) = [[[0, 0]]]
   \<and> variance (normalized [[[1, 1]]] (- 1) (1 / 10 ^ 8) ! 0 ! 0) = 0"
  by (simp add: normalized_def moments_def reduce_mean_def variance_def upt_rec)

section \<open>Properties of highwaynet\<close>

lemma shape_eq_lengths:
  assumes "shape a = shape b"
  shows "length a = length b"
    and "n < length b \<Longrightarrow> length (a ! n) = length (b ! n)"
    and "n < length b \<Longrightarrow> t < length (b ! n) \<Longrightarrow> length (a ! n ! t) = length (b ! n ! t)"
proof -
  from assms have m: "map (map length) a = map (map length) b"
    by (simp add: shape_def)
  from m show l: "length a = length b"
    by (rule map_eq_imp_length_eq)
  {
    assume n: "n < length b"
    with m l have e: "map length (a ! n) = map length (b ! n)"
      by (metis nth_map)
    then show l2: "length (a ! n) = length (b ! n)"
      by (rule map_eq_imp_length_eq)
    {
      assume t: "t < length (b ! n)"
      with e l2 show "length (a ! n ! t) = length (b ! n ! t)"
        by (metis nth_map)
    }
  }
qed

lemma broadcast_nth:
  "length a = length b \<Longrightarrow> c < length b \<Longrightarrow> broadcast f a b ! c = f (a ! c) (b ! c)"
  by (simp add: broadcast_def)

lemma length_broadcast: "length a = length b \<Longrightarrow> length (broadcast f a b) = length b"
  by (simp add: broadcast_def)

lemma tensor_op_nth:
  "length x = length y \<Longrightarrow> n < length y \<Longrightarrow> length (x ! n) = length (y ! n) \<Longrightarrow> t < length (y ! n) \<Longrightarrow>
     tensor_op f x y ! n ! t = broadcast f (x ! n ! t) (y ! n ! t)"
  by (simp add: tensor_op_def)

lemma map_length_broadcast:
  "map length a = map length b \<Longrightarrow> map length (map2 (broadcast f) a b) = map length b"
  by (induction a b rule: list_induct2') (auto simp: broadcast_def)

lemma shape_tensor_op: "shape x = shape y \<Longrightarrow> shape (tensor_op f x y) = shape y"
  unfolding shape_def tensor_op_def
  by (induction x y rule: list_induct2') (auto dest: map_length_broadcast [where f = f])

lemma shape_map3: "shape (map (map (map g)) x) = shape x"
  by (simp add: shape_def comp_def)

lemma highway_output_nth:
  assumes H: "shape H = shape x" and G: "shape G = shape x"
    and n: "n < length x" and t: "t < length (x ! n)" and c: "c < length (x ! n ! t)"
  shows "highway_output H G x ! n ! t ! c =
           H ! n ! t ! c * G ! n ! t ! c + x ! n ! t ! c * (1 - G ! n ! t ! c)"
proof -
  define C where "C = map (map (map (\<lambda>g. 1 - g))) G"
  have C: "shape C = shape x"
    using G by (simp add: C_def shape_map3)
  have HG: "shape H = shape G"
    using H G by simp
  have xC: "shape x = shape C"
    using C by simp
  note lH = shape_eq_lengths [OF H] and lG = shape_eq_lengths [OF G]
    and lC = shape_eq_lengths [OF C]
  have s1: "shape (tensor_op (*) H G) = shape x"
    using shape_tensor_op [OF HG] G by simp
  have s2: "shape (tensor_op (*) x C) = shape x"
    using shape_tensor_op [OF xC] C by simp
  note l1 = shape_eq_lengths [OF s1] and l2 = shape_eq_lengths [OF s2]
  have Cn: "C ! n ! t ! c = 1 - G ! n ! t ! c"
    using n t c lG by (simp add: C_def)
  have a: "tensor_op (*) H G ! n ! t ! c = H ! n ! t ! c * G ! n ! t ! c"
    using n t c lH lG by (simp add: tensor_op_nth broadcast_nth)
  have b: "tensor_op (*) x C ! n ! t ! c = x ! n ! t ! c * C ! n ! t ! c"
    using n t c lC by (simp add: tensor_op_nth broadcast_nth)
  have "highway_output H G x = tensor_op (+) (tensor_op (*) H G) (tensor_op (*) x C)"
    by (simp add: highway_output_def C_def)
  then show ?thesis
    using n t c l1 l2 a b Cn by (simp add: tensor_op_nth broadcast_nth)
qed

lemma shape_dense:
  "list_all (list_all (\<lambda>p. length p = u)) x \<Longrightarrow> shape (dense v x u act) = shape x"
  unfolding shape_def dense_def
  by (induction x) (auto simp: list_all_iff)

lemma last_dim_single: "last_dim [[p]] = length p"
  by (simp add: last_dim_def)

text \<open>
  Claim C7 (highway gate equation). For a rectangular input whose channel count is the
  number of units (\<open>num_units\<close> left out, 0, or given as that count), \<open>highwaynet\<close> returns
  \<open>highway_output H T inputs\<close> with \<open>H = relu (dense inputs)\<close> and \<open>T = sigmoid (dense inputs)\<close>,
  both of the shape of the input. For all tensors \<open>H\<close> and \<open>T\<close> of that shape the output is
  \<open>H * T + inputs * (1 - T)\<close> element by element; hence it is \<open>H\<close> wherever \<open>T\<close> is 1 and the
  input wherever \<open>T\<close> is 0. (Over the reals the sigmoid stays strictly between 0 and 1, so
  the two boundary cases are stated for every gate tensor of the right shape.)
\<close>

theorem highwaynet_gate:
  "list_all (list_all (\<lambda>p. length p = last_dim inputs)) inputs \<Longrightarrow>
   num_units = None \<or> num_units = Some 0 \<or> num_units = Some (last_dim inputs) \<Longrightarrow>
     highwaynet dense1 dense2 inputs num_units =
       Inr (highway_output (dense dense1 inputs (last_dim inputs) relu)
              (dense dense2 inputs (last_dim inputs) sigmoid) inputs)
     \<and> shape (dense dense1 inputs (last_dim inputs) relu) = shape inputs
     \<and> shape (dense dense2 inputs (last_dim inputs) sigmoid) = shape inputs
     \<and> (\<forall>H T n t c. shape H = shape inputs \<and> shape T = shape inputs
            \<and> n < length inputs \<and> t < length (inputs ! n) \<and> c < length (inputs ! n ! t) \<longrightarrow>
          highway_output H T inputs ! n ! t ! c =
            H ! n ! t ! c * T ! n ! t ! c + inputs ! n ! t ! c * (1 - T ! n ! t ! c)
          \<and> (T ! n ! t ! c = 1 \<longrightarrow> highway_output H T inputs ! n ! t ! c = H ! n ! t ! c)
          \<and> (T ! n ! t ! c = 0 \<longrightarrow> highway_output H T inputs ! n ! t ! c = inputs ! n ! t ! c))"
proof (intro conjI allI impI)
  assume wf: "list_all (list_all (\<lambda>p. length p = last_dim inputs)) inputs"
    and nu: "num_units = None \<or> num_units = Some 0 \<or> num_units = Some (last_dim inputs)"
  from nu show "highwaynet dense1 dense2 inputs num_units =
       Inr (highway_output (dense dense1 inputs (last_dim inputs) relu)
              (dense dense2 inputs (last_dim inputs) sigmoid) inputs)"
    by (auto simp: highwaynet_def Let_def)
  from wf show "shape (dense dense1 inputs (last_dim inputs) relu) = shape inputs"
    by (rule shape_dense)
  from wf show "shape (dense dense2 inputs (last_dim inputs) sigmoid) = shape inputs"
    by (rule shape_dense)
next
  fix H T n t c
  assume a: "shape H = shape inputs \<and> shape T = shape inputs
            \<and> n < length inputs \<and> t < length (inputs ! n) \<and> c < length (inputs ! n ! t)"
  then show e: "highway_output H T inputs ! n ! t ! c =
            H ! n ! t ! c * T ! n ! t ! c + inputs ! n ! t ! c * (1 - T ! n ! t ! c)"
    by (simp add: highway_output_nth)
  {
    assume "T ! n ! t ! c = 1"
    with e show "highway_output H T inputs ! n ! t ! c = H ! n ! t ! c" by simp
  }
  {
    assume "T ! n ! t ! c = 0"
    with e show "highway_output H T inputs ! n ! t ! c = inputs ! n ! t ! c" by simp
  }
qed

theorem highwaynet_gate_witness:
  "highwaynet \<lparr>dense_kernel = (\<lambda>c u. 0), dense_bias = (\<lambda>u. 3)\<rparr>
      \<lparr>dense_kernel = (\<lambda>c u. 0), dense_bias = (\<lambda>u. 0)\<rparr> [[[1, 2]]] None = Inr [[[2, 5 / 2]]]
   \<and> highway_output [[[7, 8]]] [[[1, 0]]] [[[1, 2]]] ! 0 ! 0 ! 0 = 7
   \<and> highway_output [[[7, 8]]] [[[1, 0]]] [[[1, 2]]] ! 0 ! 0 ! 1 = 2"
proof -
  let ?d1 = "\<lparr>dense_kernel = (\<lambda>c u. 0), dense_bias = (\<lambda>u. 3)\<rparr>"
  let ?d2 = "\<lparr>dense_kernel = (\<lambda>c u. 0), dense_bias = (\<lambda>u. 0)\<rparr>"
  let ?x = "[[[1, 2 :: real]]]"
  have wf: "list_all (list_all (\<lambda>p. length p = last_dim ?x)) ?x"
    by (simp add: last_dim_def)
  have nu: "None = None \<or> None = Some 0 \<or> None = Some (last_dim ?x)"
    by simp
  note th = highwaynet_gate [OF wf nu, of ?d1 ?d2]
  have H: "dense ?d1 ?x (last_dim ?x) relu = [[[3, 3]]]"
    by (simp add: dense_def last_dim_def relu_def upt_rec numeral_2_eq_2)
  have T: "dense ?d2 ?x (last_dim ?x) sigmoid = [[[1 / 2, 1 / 2]]]"
    by (simp add: dense_def last_dim_def sigmoid_def upt_rec numeral_2_eq_2)
  have "highway_output [[[3, 3]]] [[[1 / 2, 1 / 2]]] ?x = [[[2, 5 / 2]]]"
    by (simp add: highway_output_def tensor_op_def broadcast_def)
  with th H T have r: "highwaynet ?d1 ?d2 ?x None = Inr [[[2, 5 / 2]]]"
    by simp
  have s: "shape [[[7, 8]]] = shape ?x" "shape [[[1, 0]]] = shape ?x"
    by (simp_all add: shape_def)
  from th have g: "shape H = shape ?x \<and> shape T = shape ?x
            \<and> n < length ?x \<and> t < length (?x ! n) \<and> c < length (?x ! n ! t) \<longrightarrow>
          (T ! n ! t ! c = 1 \<longrightarrow> highway_output H T ?x ! n ! t ! c = H ! n ! t ! c)
          \<and> (T ! n ! t ! c = 0 \<longrightarrow> highway_output H T ?x ! n ! t ! c = ?x ! n ! t ! c)" for H T n t c
    by blast
  from g [of "[[[7, 8]]]" "[[[1, 0]]]" 0 0 0] s
  have b1: "highway_output [[[7, 8]]] [[[1, 0]]] ?x ! 0 ! 0 ! 0 = 7"
    by simp
  from g [of "[[[7, 8]]]" "[[[1, 0]]]" 0 0 1] s
  have b0: "highway_output [[[7, 8]]] [[[1, 0]]] ?x ! 0 ! 0 ! 1 = 2"
    by simp
  from r b1 b0 show ?thesis by simp
qed

section \<open>Properties of conv1d\<close>

lemma length_conv_valid [simp]:
  "length (conv_valid v f k r ub s) = length s - (k - 1) * r"
  by (simp add: conv_valid_def)

lemma conv_valid_cong:
  assumes "length s' - (k - 1) * r = length s - (k - 1) * r"
    and "\<And>t j. t < length s - (k - 1) * r \<Longrightarrow> j < k \<Longrightarrow> s' ! (t + j * r) = s ! (t + j * r)"
  shows "conv_valid v f k r ub s' = conv_valid v f k r ub s"
  unfolding conv_valid_def using assms by (auto intro!: arg_cong [where f = sum_list])

lemma take_conv_valid:
  "take m (conv_valid v f k r ub s) = conv_valid v f k r ub (take (m + (k - 1) * r) s)"
proof -
  define P where "P = (k - 1) * r"
  have idx: "take (m + P) s ! (t + j * r) = s ! (t + j * r)" if "t < m" "j < k" for t j
  proof -
    from that have "j \<le> k - 1" by simp
    then have "j * r \<le> P" unfolding P_def by (rule mult_le_mono1)
    with that show ?thesis by simp
  qed
  have "take m (conv_valid v f k r ub s) = conv_valid v f k r ub (take (m + P) s)"
    unfolding conv_valid_def P_def [symmetric]
    using idx by (auto simp: take_map min_def intro!: arg_cong [where f = sum_list])
  then show ?thesis by (simp add: P_def)
qed

lemma lower_valid [simp]: "lower ''valid'' = ''valid''"
  by (simp add: lower_def lower_char_def)

lemma last_dim_map_take: "last_dim (map (take (Suc t)) x) = last_dim x"
proof -
  have "(case concat (map (take (Suc t)) x) of [] \<Rightarrow> 0 | p # ps \<Rightarrow> length p) =
        (case concat x of [] \<Rightarrow> 0 | p # ps \<Rightarrow> length (p :: real list))"
  proof (induction x)
    case Nil
    show ?case by simp
  next
    case (Cons s x)
    then show ?case by (cases s) simp_all
  qed
  then show ?thesis by (simp add: last_dim_def)
qed

lemma last_dim_pad: "last_dim (pad x b 0) = last_dim x"
proof (cases b)
  case 0
  then show ?thesis by (simp add: pad_def)
next
  case (Suc b')
  show ?thesis
  proof (cases x)
    case Nil
    then show ?thesis by (simp add: pad_def last_dim_def)
  next
    case (Cons s x')
    with Suc show ?thesis by (simp add: pad_def last_dim_def [of "_ # _"])
  qed
qed

lemma pad_map_take:
  "map (take (Suc t + b)) (pad x b 0) = pad (map (take (Suc t)) x) b 0"
  by (simp add: pad_def last_dim_map_take)

lemma map_length_pad: "map length (pad x b a) = map (\<lambda>s. b + length s + a) x"
  by (simp add: pad_def)

text \<open>The dropout keeps the lengths and commutes with cutting sequences down to a prefix.\<close>

lemma dropout_lengths: "dropout k x r tr = Inr y \<Longrightarrow> map length y = map length x"
  by (auto simp: dropout_def split: if_splits intro!: nth_equalityI)

lemma dropout_defined: "tr \<longrightarrow> 0 \<le> r \<and> r < 1 \<Longrightarrow> \<exists>y. dropout k x r tr = Inr y"
  by (auto simp: dropout_def)

lemma dropout_Inl: "dropout k x r tr = Inl e \<Longrightarrow> tr \<and> (r < 0 \<or> 1 \<le> r)"
  by (auto simp: dropout_def split: if_splits)

lemma dropout_map_take:
  assumes "dropout k x r tr = Inr y"
  shows "dropout k (map (take m) x) r tr = Inr (map (take m) y)"
proof (cases "tr \<and> r \<noteq> 0")
  case False
  with assms show ?thesis by (auto simp: dropout_def split: if_splits)
next
  case True
  with assms have ok: "\<not> (r < 0 \<or> 1 \<le> r)"
    by (auto simp: dropout_def split: if_splits)
  let ?d = "\<lambda>x. map (\<lambda>n. map (\<lambda>t. map (\<lambda>c.
                  if k n t c then x ! n ! t ! c / (1 - r) else 0)
                [0..<length (x ! n ! t)])
              [0..<length (x ! n)])
            [0..<length x]"
  from assms True ok have y: "y = ?d x" by (simp add: dropout_def)
  have "?d (map (take m) x) = map (take m) (?d x)"
    by (auto simp: take_map min_def intro!: nth_equalityI)
  with True ok y show ?thesis by (simp add: dropout_def)
qed

text \<open>
  \<open>normalize\<close> always returns a tensor and keeps the lengths; in the modes that do not
  reduce over the time axis it acts position by position.
\<close>

lemma squeeze_expand_dims:
  "squeeze (map (map (map g)) (expand_dims x)) = Inr (map (map g) x)"
  by (simp add: squeeze_def expand_dims_def list_all_iff comp_def)

lemma batch_normalization_map:
  "\<exists>g. batch_normalization v tr x4 = map (map (map g)) x4"
  unfolding batch_normalization_def Let_def by blast

lemma batch_normalization_inference:
  "batch_normalization v False x4 =
     map (map (map (\<lambda>p. map (\<lambda>c.
           (p ! c - moving_mean v c) * rsqrt (moving_variance v c + 1 / 1000) * bn_gamma v c
             + bn_beta v c) [0..<length p]))) x4"
  by (simp add: batch_normalization_def)

lemma scale_shift_normalized_layer:
  "scale_shift g b (normalized x (- 1) e) =
     map (map (\<lambda>p. map (\<lambda>c.
        g c * ((p ! c - reduce_mean p) * rsqrt (variance p + e)) + b c) [0..<length p])) x"
  by (auto simp: scale_shift_def normalized_def moments_def Let_def intro!: nth_equalityI)

lemma map_length_scale_shift_normalized:
  "map length (scale_shift g b (normalized x ax e)) = map length x"
  by (auto simp: scale_shift_def normalized_def intro!: nth_equalityI)

lemma normalize_lengths:
  assumes "normalize vars x ty e tr False = Inr y"
  shows "map length y = map length x"
proof -
  consider "ty = Some ''bn''" | "ty \<noteq> Some ''bn''" "ty = Some ''ln'' \<or> ty = Some ''ins''"
    | "ty \<noteq> Some ''bn''" "ty \<noteq> Some ''ln''" "ty \<noteq> Some ''ins''"
    by blast
  then show ?thesis
  proof cases
    case 1
    obtain g where "batch_normalization (bn vars) tr (expand_dims x) = map (map (map g)) (expand_dims x)"
      using batch_normalization_map by blast
    with 1 assms have "y = map (map g) x"
      by (simp add: normalize_def squeeze_expand_dims)
    then show ?thesis by simp
  next
    case 2
    with assms have "y = scale_shift (gamma vars) (beta vars)
        (normalized x (if ty = Some ''ln'' then - 1 else 1) e)"
      by (auto simp: normalize_def Let_def)
    then show ?thesis by (simp only: map_length_scale_shift_normalized)
  next
    case 3
    with assms show ?thesis by (simp add: normalize_def)
  qed
qed

lemma normalize_defined: "\<exists>y. normalize vars x ty e tr mk = Inr y"
proof (cases "ty = Some ''bn''")
  case True
  obtain g where "batch_normalization (bn vars) tr (expand_dims x) = map (map (map g)) (expand_dims x)"
    using batch_normalization_map by blast
  with True show ?thesis
    by (simp add: normalize_def squeeze_expand_dims)
next
  case False
  then show ?thesis by (simp add: normalize_def Let_def)
qed

lemma normalize_positionwise:
  assumes "ty \<noteq> Some ''ins''" and "ty = Some ''bn'' \<longrightarrow> \<not> tr"
  shows "\<exists>g. \<forall>x. normalize vars x ty e tr False = Inr (map (map g) x)"
proof -
  consider "ty = Some ''bn''" "\<not> tr" | "ty = Some ''ln''"
    | "ty \<noteq> Some ''bn''" "ty \<noteq> Some ''ln''" "ty \<noteq> Some ''ins''"
    using assms by blast
  then show ?thesis
  proof cases
    case 1
    then have "\<forall>x. normalize vars x ty e tr False = Inr (map (map (\<lambda>p. map (\<lambda>c.
           (p ! c - moving_mean (bn vars) c) * rsqrt (moving_variance (bn vars) c + 1 / 1000)
             * bn_gamma (bn vars) c + bn_beta (bn vars) c) [0..<length p])) x)"
      by (simp add: normalize_def batch_normalization_inference squeeze_expand_dims)
    then show ?thesis by blast
  next
    case 2
    then have "\<forall>x. normalize vars x ty e tr False = Inr (map (map (\<lambda>p. map (\<lambda>c.
        gamma vars c * ((p ! c - reduce_mean p) * rsqrt (variance p + e)) + beta vars c)
        [0..<length p])) x)"
      by (simp add: normalize_def scale_shift_normalized_layer)
    then show ?thesis by blast
  next
    case 3
    then have "\<forall>x. normalize vars x ty e tr False = Inr (map (map id) x)"
      by (simp add: normalize_def)
    then show ?thesis by blast
  qed
qed

text \<open>The steps after the convolution.\<close>

lemma post_process_lengths:
  assumes "post_process pv x nt act dr tr = Inr y"
  shows "map length y = map length x"
proof -
  obtain z where z: "normalize (norm_vars pv) x nt default_epsilon tr False = Inr z"
    using normalize_defined by blast
  then have lz: "map length z = map length x"
    by (rule normalize_lengths)
  define z' where "z' = (case act of None \<Rightarrow> z | Some f \<Rightarrow> map (map f) z)"
  have lz': "map length z' = map length z"
    by (cases act) (simp_all add: z'_def)
  from assms z have "dropout (keep pv) z' dr tr = Inr y"
    by (simp add: post_process_def z'_def)
  then have "map length y = map length z'"
    by (rule dropout_lengths)
  with lz lz' show ?thesis by simp
qed

lemma post_process_defined:
  assumes "tr \<longrightarrow> 0 \<le> dr \<and> dr < 1"
  shows "\<exists>y. post_process pv x nt act dr tr = Inr y"
proof -
  obtain z where z: "normalize (norm_vars pv) x nt default_epsilon tr False = Inr z"
    using normalize_defined by blast
  with dropout_defined [OF assms] show ?thesis
    by (simp add: post_process_def)
qed

lemma post_process_map_take:
  assumes "nt \<noteq> Some ''ins''" and "nt = Some ''bn'' \<longrightarrow> \<not> tr"
    and "post_process pv x nt act dr tr = Inr y"
  shows "post_process pv (map (take m) x) nt act dr tr = Inr (map (take m) y)"
proof -
  obtain g where g: "\<And>x. normalize (norm_vars pv) x nt default_epsilon tr False = Inr (map (map g) x)"
    using normalize_positionwise [OF assms(1,2)] by blast
  define h where "h = (case act of None \<Rightarrow> g | Some f \<Rightarrow> f \<circ> g)"
  have p: "post_process pv x nt act dr tr = dropout (keep pv) (map (map h) x) dr tr" for x
    by (cases act) (simp_all add: post_process_def g h_def)
  from assms(3) have "dropout (keep pv) (map (map h) x) dr tr = Inr y"
    by (simp add: p)
  then have "dropout (keep pv) (map (take m) (map (map h) x)) dr tr = Inr (map (take m) y)"
    by (rule dropout_map_take)
  then show ?thesis
    by (simp add: p take_map comp_def)
qed

lemma layers_conv1d_valid:
  "lower padding = ''valid'' \<Longrightarrow>
     layers_conv1d cv x f k r padding ub =
       (if k = 0 \<or> r = 0 \<or> \<not> list_all (\<lambda>s. (k - 1) * r \<le> length s) x then Inl ValueError
        else Inr (map (conv_valid cv f k r ub) x))"
  by (simp add: layers_conv1d_def Let_def)

lemma layers_conv1d_same:
  "lower padding = ''same'' \<Longrightarrow>
     layers_conv1d cv x f k r padding ub =
       (if k = 0 \<or> r = 0 then Inl ValueError
        else Inr (map (conv_valid cv f k r ub)
                    (pad x ((k - 1) * r div 2) ((k - 1) * r - (k - 1) * r div 2))))"
  by (simp add: layers_conv1d_def Let_def)

lemma conv1d_causal:
  "lower padding = ''causal'' \<Longrightarrow>
     conv1d cv pv x filters k r padding dr ub nt act tr =
       (if k = 0 \<or> r = 0 then Inl ValueError
        else post_process pv
               (map (conv_valid cv (case filters of None \<Rightarrow> last_dim x | Some f \<Rightarrow> f) k r ub)
                  (pad x ((k - 1) * r) 0))
               nt act dr tr)"
  by (cases filters)
     (simp_all add: conv1d_def Let_def layers_conv1d_valid last_dim_pad list_all_iff,
      simp_all add: pad_def)

lemma conv1d_not_causal:
  "lower padding \<noteq> ''causal'' \<Longrightarrow>
     conv1d cv pv x filters k r padding dr ub nt act tr =
       (case layers_conv1d cv x (case filters of None \<Rightarrow> last_dim x | Some f \<Rightarrow> f) k r padding ub of
          Inl e \<Rightarrow> Inl e
        | Inr y \<Rightarrow> post_process pv y nt act dr tr)"
  by (simp add: conv1d_def Let_def)

lemma map_length_conv_pad:
  "map length (map (conv_valid cv f k r ub) (pad x b a)) =
     map (\<lambda>s. b + length s + a - (k - 1) * r) x"
  by (simp add: pad_def comp_def add.assoc)

lemma conv1d_lengths:
  assumes "conv1d cv pv x filters k r padding dr ub nt act tr = Inr out"
  shows "lower padding = ''causal'' \<or> lower padding = ''same'' \<Longrightarrow> map length out = map length x"
    and "lower padding = ''valid'' \<Longrightarrow> map length out = map (\<lambda>s. length s - (k - 1) * r) x"
proof -
  define f where "f = (case filters of None \<Rightarrow> last_dim x | Some f \<Rightarrow> f)"
  {
    assume c: "lower padding = ''causal''"
    with assms have "post_process pv (map (conv_valid cv f k r ub) (pad x ((k - 1) * r) 0))
        nt act dr tr = Inr out"
      by (simp add: conv1d_causal f_def split: if_splits)
    then have "map length out = map length (map (conv_valid cv f k r ub) (pad x ((k - 1) * r) 0))"
      by (rule post_process_lengths)
    then have "map length out = map length x"
      by (simp only: map_length_conv_pad) simp
  }
  note causal = this
  {
    assume c: "lower padding = ''same''"
    then have nc: "lower padding \<noteq> ''causal''" by simp
    let ?P = "(k - 1) * r"
    from assms c have "post_process pv (map (conv_valid cv f k r ub)
         (pad x (?P div 2) (?P - ?P div 2))) nt act dr tr = Inr out"
      by (simp add: conv1d_not_causal [OF nc] layers_conv1d_same f_def split: if_splits)
    then have "map length out = map length (map (conv_valid cv f k r ub)
         (pad x (?P div 2) (?P - ?P div 2)))"
      by (rule post_process_lengths)
    then have "map length out = map length x"
      by (simp only: map_length_conv_pad) simp
  }
  note same = this
  show "lower padding = ''causal'' \<or> lower padding = ''same'' \<Longrightarrow> map length out = map length x"
    using causal same by blast
  {
    assume c: "lower padding = ''valid''"
    then have nc: "lower padding \<noteq> ''causal''" by simp
    from assms c have "post_process pv (map (conv_valid cv f k r ub) x) nt act dr tr = Inr out"
      by (simp add: conv1d_not_causal [OF nc] layers_conv1d_valid f_def split: if_splits)
    then have "map length out = map length (map (conv_valid cv f k r ub) x)"
      by (rule post_process_lengths)
    then show "map length out = map (\<lambda>s. length s - (k - 1) * r) x"
      by (simp add: comp_def)
  }
qed

lemma conv1d_defined:
  assumes "1 \<le> k" "1 \<le> r" "tr \<longrightarrow> 0 \<le> dr \<and> dr < 1"
  shows "lower padding = ''causal'' \<or> lower padding = ''same'' \<Longrightarrow>
           \<exists>out. conv1d cv pv x filters k r padding dr ub nt act tr = Inr out"
    and "lower padding = ''valid'' \<Longrightarrow> list_all (\<lambda>s. (k - 1) * r \<le> length s) x \<Longrightarrow>
           \<exists>out. conv1d cv pv x filters k r padding dr ub nt act tr = Inr out"
proof -
  note pd = post_process_defined [OF assms(3)]
  {
    assume c: "lower padding = ''causal''"
    with assms(1,2) pd have "\<exists>out. conv1d cv pv x filters k r padding dr ub nt act tr = Inr out"
      by (simp add: conv1d_causal)
  }
  moreover
  {
    assume c: "lower padding = ''same''"
    then have nc: "lower padding \<noteq> ''causal''" by simp
    from assms(1,2) pd c have "\<exists>out. conv1d cv pv x filters k r padding dr ub nt act tr = Inr out"
      by (simp add: conv1d_not_causal [OF nc] layers_conv1d_same)
  }
  ultimately show "lower padding = ''causal'' \<or> lower padding = ''same'' \<Longrightarrow>
           \<exists>out. conv1d cv pv x filters k r padding dr ub nt act tr = Inr out"
    by blast
  {
    assume c: "lower padding = ''valid''" and l: "list_all (\<lambda>s. (k - 1) * r \<le> length s) x"
    then have nc: "lower padding \<noteq> ''causal''" by simp
    from assms(1,2) pd c l show "\<exists>out. conv1d cv pv x filters k r padding dr ub nt act tr = Inr out"
      by (simp add: conv1d_not_causal [OF nc] layers_conv1d_valid)
  }
qed

text \<open>
  With causal padding and a normalisation that acts position by position, \<open>conv1d\<close>
  commutes with cutting every sequence down to a prefix.
\<close>

lemma conv_pad_map_take:
  "map (take (Suc t)) (map (conv_valid cv f k r ub) (pad x ((k - 1) * r) 0)) =
     map (conv_valid cv f k r ub) (pad (map (take (Suc t)) x) ((k - 1) * r) 0)"
proof -
  have "map (take (Suc t)) (map (conv_valid cv f k r ub) (pad x ((k - 1) * r) 0)) =
      map (conv_valid cv f k r ub) (map (take (Suc t + (k - 1) * r)) (pad x ((k - 1) * r) 0))"
    by (simp add: take_conv_valid comp_def)
  then show ?thesis by (simp only: pad_map_take)
qed

lemma conv1d_map_take:
  assumes c: "lower padding = ''causal''"
    and nt: "nt \<noteq> Some ''ins''" "nt = Some ''bn'' \<longrightarrow> \<not> tr"
    and out: "conv1d cv pv x filters k r padding dr ub nt act tr = Inr out"
  shows "conv1d cv pv (map (take (Suc t)) x) filters k r padding dr ub nt act tr =
           Inr (map (take (Suc t)) out)"
proof -
  define f where "f = (case filters of None \<Rightarrow> last_dim x | Some f \<Rightarrow> f)"
  have f': "(case filters of None \<Rightarrow> last_dim (map (take (Suc t)) x) | Some f \<Rightarrow> f) = f"
    by (cases filters) (simp_all add: f_def last_dim_map_take)
  from out c have kr: "\<not> (k = 0 \<or> r = 0)"
    by (simp add: conv1d_causal split: if_splits)
  with out c have "post_process pv (map (conv_valid cv f k r ub) (pad x ((k - 1) * r) 0))
        nt act dr tr = Inr out"
    by (simp add: conv1d_causal f_def)
  from post_process_map_take [OF nt this, of "Suc t"]
  have "post_process pv (map (conv_valid cv f k r ub) (pad (map (take (Suc t)) x) ((k - 1) * r) 0))
        nt act dr tr = Inr (map (take (Suc t)) out)"
    by (simp only: conv_pad_map_take)
  with kr show ?thesis
    by (simp add: conv1d_causal [OF c] f')
qed

lemma conv1d_causal_unfold:
  "lower padding = ''causal'' \<Longrightarrow>
     conv1d cv pv x filters k r padding dr ub nt act tr =
       (case layers_conv1d cv (pad x ((k - 1) * r) 0)
               (case filters of None \<Rightarrow> last_dim x | Some f \<Rightarrow> f) k r ''valid'' ub of
          Inl e \<Rightarrow> Inl e
        | Inr y \<Rightarrow> post_process pv y nt act dr tr)"
  by (cases filters) (simp_all add: conv1d_def Let_def last_dim_pad)

lemmas conv1d_eval = conv1d_def layers_conv1d_def conv_valid_def pad_def last_dim_def lower_def
  lower_char_def post_process_def normalize_def dropout_def initial_variables_def upt_rec Let_def

text \<open>
  Claim C4 (output time length of conv1d). Whenever \<open>conv1d\<close> returns a tensor, every
  sequence of the result is as long as its input sequence for the paddings \<^verbatim>\<open>same\<close> and
  \<^verbatim>\<open>causal\<close>, and shorter by \<open>(size - 1) * rate\<close> for \<^verbatim>\<open>valid\<close> (where the span then fits into
  every sequence). It does return a tensor for a kernel size and a dilation rate of at
  least 1 and a dropout rate in \<open>[0, 1)\<close> when training, provided for \<^verbatim>\<open>valid\<close> that the span
  \<open>(size - 1) * rate\<close> is at most the length of every sequence.
\<close>

theorem conv1d_time_length:
  "(lower padding = ''same'' \<or> lower padding = ''causal'' \<longrightarrow>
      (\<forall>out. conv1d cv pv inputs filters size' rate padding dropout_rate use_bias norm_type
               activation_fn training = Inr out
         \<longrightarrow> map length out = map length inputs)
      \<and> (1 \<le> size' \<and> 1 \<le> rate \<and> (training \<longrightarrow> 0 \<le> dropout_rate \<and> dropout_rate < 1)
         \<longrightarrow> (\<exists>out. conv1d cv pv inputs filters size' rate padding dropout_rate use_bias norm_type
               activation_fn training = Inr out)))
   \<and> (lower padding = ''valid'' \<longrightarrow>
      (\<forall>out. conv1d cv pv inputs filters size' rate padding dropout_rate use_bias norm_type
               activation_fn training = Inr out
         \<longrightarrow> map length out = map (\<lambda>s. length s - (size' - 1) * rate) inputs
           \<and> list_all (\<lambda>s. (size' - 1) * rate \<le> length s) inputs)
      \<and> (1 \<le> size' \<and> 1 \<le> rate \<and> (training \<longrightarrow> 0 \<le> dropout_rate \<and> dropout_rate < 1)
           \<and> list_all (\<lambda>s. (size' - 1) * rate \<le> length s) inputs
         \<longrightarrow> (\<exists>out. conv1d cv pv inputs filters size' rate padding dropout_rate use_bias norm_type
               activation_fn training = Inr out)))"
proof (intro conjI allI impI)
  fix out
  assume "lower padding = ''same'' \<or> lower padding = ''causal''"
    and "conv1d cv pv inputs filters size' rate padding dropout_rate use_bias norm_type
               activation_fn training = Inr out"
  then show "map length out = map length inputs"
    using conv1d_lengths(1) by blast
next
  assume "lower padding = ''same'' \<or> lower padding = ''causal''"
    and "1 \<le> size' \<and> 1 \<le> rate \<and> (training \<longrightarrow> 0 \<le> dropout_rate \<and> dropout_rate < 1)"
  then show "\<exists>out. conv1d cv pv inputs filters size' rate padding dropout_rate use_bias norm_type
               activation_fn training = Inr out"
    using conv1d_defined(1) by blast
next
  fix out
  assume v: "lower padding = ''valid''"
    and o: "conv1d cv pv inputs filters size' rate padding dropout_rate use_bias norm_type
               activation_fn training = Inr out"
  then show "map length out = map (\<lambda>s. length s - (size' - 1) * rate) inputs"
    using conv1d_lengths(2) by blast
  from v have nc: "lower padding \<noteq> ''causal''" by simp
  from o v show "list_all (\<lambda>s. (size' - 1) * rate \<le> length s) inputs"
    by (simp add: conv1d_not_causal [OF nc] layers_conv1d_valid split: if_splits)
next
  assume "lower padding = ''valid''"
    and "1 \<le> size' \<and> 1 \<le> rate \<and> (training \<longrightarrow> 0 \<le> dropout_rate \<and> dropout_rate < 1)
           \<and> list_all (\<lambda>s. (size' - 1) * rate \<le> length s) inputs"
  then show "\<exists>out. conv1d cv pv inputs filters size' rate padding dropout_rate use_bias norm_type
               activation_fn training = Inr out"
    using conv1d_defined(2) by blast
qed

theorem conv1d_time_length_witness:
  "(\<exists>out. conv1d \<lparr>conv_kernel = (\<lambda>j c o'. 1), conv_bias = (\<lambda>o'. 0)\<rparr>
            \<lparr>norm_vars = initial_variables, keep = (\<lambda>n t c. True)\<rparr>
            [[[1], [2], [3]]] None 3 1 ''SAME'' 0 True None None True = Inr out
          \<and> map length out = [3])
   \<and> (\<exists>out. conv1d \<lparr>conv_kernel = (\<lambda>j c o'. 1), conv_bias = (\<lambda>o'. 0)\<rparr>
            \<lparr>norm_vars = initial_variables, keep = (\<lambda>n t c. True)\<rparr>
            [[[1], [2], [3]]] None 3 1 ''causal'' 0 True None None True = Inr out
          \<and> map length out = [3])
   \<and> (\<exists>out. conv1d \<lparr>conv_kernel = (\<lambda>j c o'. 1), conv_bias = (\<lambda>o'. 0)\<rparr>
            \<lparr>norm_vars = initial_variables, keep = (\<lambda>n t c. True)\<rparr>
            [[[1], [2], [3]]] None 3 1 ''valid'' 0 True None None True = Inr out
          \<and> map length out = [1])"
proof -
  let ?cv = "\<lparr>conv_kernel = (\<lambda>j c o'. 1), conv_bias = (\<lambda>o'. 0)\<rparr>"
  let ?pv = "\<lparr>norm_vars = initial_variables, keep = (\<lambda>n t c. True)\<rparr>"
  let ?x = "[[[1], [2], [3 :: real]]]"
  have l: "lower ''SAME'' = ''same''" "lower ''causal'' = ''causal''" "lower ''valid'' = ''valid''"
    by (simp_all add: lower_def lower_char_def)
  from conv1d_time_length [of "''SAME''" ?cv ?pv ?x None 3 1 0 True None None True] l
  have a: "\<exists>out. conv1d ?cv ?pv ?x None 3 1 ''SAME'' 0 True None None True = Inr out
          \<and> map length out = [3]"
    by fastforce
  from conv1d_time_length [of "''causal''" ?cv ?pv ?x None 3 1 0 True None None True] l
  have b: "\<exists>out. conv1d ?cv ?pv ?x None 3 1 ''causal'' 0 True None None True = Inr out
          \<and> map length out = [3]"
    by fastforce
  from conv1d_time_length [of "''valid''" ?cv ?pv ?x None 3 1 0 True None None True] l
  have c: "\<exists>out. conv1d ?cv ?pv ?x None 3 1 ''valid'' 0 True None None True = Inr out
          \<and> map length out = [1]"
    by fastforce
  from a b c show ?thesis by blast
qed

text \<open>
  The dropout reads its draw only in training with a rate that is not 0.
\<close>

lemma dropout_draw:
  "training \<and> rate \<noteq> 0 \<longrightarrow> k' = k \<Longrightarrow> dropout k' x rate training = dropout k x rate training"
  by (auto simp: dropout_def)

lemma post_process_draw:
  "training \<and> dropout_rate \<noteq> 0 \<longrightarrow> keep' = keep pv \<Longrightarrow>
     post_process (pv\<lparr>keep := keep'\<rparr>) x nt act dropout_rate training =
       post_process pv x nt act dropout_rate training"
  by (simp add: post_process_def Let_def dropout_draw [of training dropout_rate keep' "keep pv"]
        split: sum.splits)

lemma conv1d_draw:
  "training \<and> dropout_rate \<noteq> 0 \<longrightarrow> keep' = keep pv \<Longrightarrow>
     conv1d cv (pv\<lparr>keep := keep'\<rparr>) y filters k r padding dropout_rate ub nt act training =
       conv1d cv pv y filters k r padding dropout_rate ub nt act training"
  by (simp add: conv1d_def Let_def post_process_draw cong: sum.case_cong)

text \<open>
  Claim C1 (causality), as the code has it. With causal padding \<open>conv1d\<close> is the valid
  convolution of the input padded on the left with \<open>(size - 1) * rate\<close> zero vectors,
  followed by the normalisation, the activation and the dropout. Two evaluations with the
  same variables, on inputs that agree on the positions \<open>0 .. t\<close> of every sequence, give
  outputs that agree on the positions \<open>0 .. t\<close>, provided that
  \<^item> the normalisation does not reduce over the time axis: \<open>norm_type\<close> is not \<^verbatim>\<open>"ins"\<close>, and
    \<^verbatim>\<open>"bn"\<close> only in inference mode (with moving variances that are not negative);
  \<^item> the activation acts position by position, as the type of \<open>activation_fn\<close> has it;
  \<^item> the dropout is inactive (no training, or the rate 0), or the second evaluation has
    the same random draw as the first: \<open>keep'\<close> is the draw of the second evaluation.

  Both evaluations return for a kernel size and a dilation rate of at least 1, a dropout
  rate in \<open>[0, 1)\<close> when training, and sequences that are not empty.
\<close>

theorem conv1d_causality:
  "lower padding = ''causal'' \<Longrightarrow>
   norm_type \<noteq> Some ''ins'' \<Longrightarrow>
   (norm_type = Some ''bn'' \<longrightarrow>
      \<not> training \<and> (\<forall>c. 0 \<le> moving_variance (bn (norm_vars pv)) c)) \<Longrightarrow>
   (training \<and> dropout_rate \<noteq> 0 \<longrightarrow> keep' = keep pv) \<Longrightarrow>
   map (take (Suc t)) x = map (take (Suc t)) y \<Longrightarrow>
     conv1d cv pv x filters size' rate padding dropout_rate use_bias norm_type activation_fn
         training =
       (case layers_conv1d cv (pad x ((size' - 1) * rate) 0)
               (case filters of None \<Rightarrow> last_dim x | Some f \<Rightarrow> f) size' rate ''valid'' use_bias of
          Inl e \<Rightarrow> Inl e
        | Inr tensor \<Rightarrow> post_process pv tensor norm_type activation_fn dropout_rate training)
     \<and> (\<forall>ox oy.
          conv1d cv pv x filters size' rate padding dropout_rate use_bias norm_type activation_fn
            training = Inr ox
          \<and> conv1d cv (pv\<lparr>keep := keep'\<rparr>) y filters size' rate padding dropout_rate use_bias
            norm_type activation_fn training = Inr oy
          \<longrightarrow> map (take (Suc t)) ox = map (take (Suc t)) oy)
     \<and> (1 \<le> size' \<and> 1 \<le> rate \<and> (training \<longrightarrow> 0 \<le> dropout_rate \<and> dropout_rate < 1)
          \<and> list_all (\<lambda>s. s \<noteq> []) x \<and> list_all (\<lambda>s. s \<noteq> []) y
          \<longrightarrow> (\<exists>ox oy.
          conv1d cv pv x filters size' rate padding dropout_rate use_bias norm_type activation_fn
            training = Inr ox
          \<and> conv1d cv (pv\<lparr>keep := keep'\<rparr>) y filters size' rate padding dropout_rate use_bias
            norm_type activation_fn training = Inr oy))"
proof (intro conjI allI impI)
  assume c: "lower padding = ''causal''"
    and ins: "norm_type \<noteq> Some ''ins''"
    and bn: "norm_type = Some ''bn'' \<longrightarrow>
      \<not> training \<and> (\<forall>c. 0 \<le> moving_variance (bn (norm_vars pv)) c)"
    and draw: "training \<and> dropout_rate \<noteq> 0 \<longrightarrow> keep' = keep pv"
    and xy: "map (take (Suc t)) x = map (take (Suc t)) y"
  from bn have nt: "norm_type = Some ''bn'' \<longrightarrow> \<not> training"
    by blast
  have y: "conv1d cv (pv\<lparr>keep := keep'\<rparr>) y filters size' rate padding dropout_rate use_bias
      norm_type activation_fn training =
      conv1d cv pv y filters size' rate padding dropout_rate use_bias norm_type activation_fn
      training"
    using draw by (rule conv1d_draw)
  show "conv1d cv pv x filters size' rate padding dropout_rate use_bias norm_type activation_fn
         training =
       (case layers_conv1d cv (pad x ((size' - 1) * rate) 0)
               (case filters of None \<Rightarrow> last_dim x | Some f \<Rightarrow> f) size' rate ''valid'' use_bias of
          Inl e \<Rightarrow> Inl e
        | Inr tensor \<Rightarrow> post_process pv tensor norm_type activation_fn dropout_rate training)"
    using c by (rule conv1d_causal_unfold)
  {
    fix ox oy
    assume o: "conv1d cv pv x filters size' rate padding dropout_rate use_bias norm_type
            activation_fn training = Inr ox
          \<and> conv1d cv (pv\<lparr>keep := keep'\<rparr>) y filters size' rate padding dropout_rate use_bias
            norm_type activation_fn training = Inr oy"
    from o have "conv1d cv pv (map (take (Suc t)) x) filters size' rate padding dropout_rate
        use_bias norm_type activation_fn training = Inr (map (take (Suc t)) ox)"
      using conv1d_map_take [OF c ins nt] by blast
    moreover from o y have "conv1d cv pv (map (take (Suc t)) y) filters size' rate padding
        dropout_rate use_bias norm_type activation_fn training = Inr (map (take (Suc t)) oy)"
      using conv1d_map_take [OF c ins nt] by simp
    ultimately show "map (take (Suc t)) ox = map (take (Suc t)) oy"
      using xy by simp
  }
  {
    assume a: "1 \<le> size' \<and> 1 \<le> rate \<and> (training \<longrightarrow> 0 \<le> dropout_rate \<and> dropout_rate < 1)
          \<and> list_all (\<lambda>s. s \<noteq> []) x \<and> list_all (\<lambda>s. s \<noteq> []) y"
    from a c have "\<exists>ox. conv1d cv pv x filters size' rate padding dropout_rate use_bias norm_type
        activation_fn training = Inr ox"
      by (intro conv1d_defined(1)) simp_all
    moreover from a c have "\<exists>oy. conv1d cv pv y filters size' rate padding dropout_rate use_bias
        norm_type activation_fn training = Inr oy"
      by (intro conv1d_defined(1)) simp_all
    ultimately show "\<exists>ox oy.
          conv1d cv pv x filters size' rate padding dropout_rate use_bias norm_type activation_fn
            training = Inr ox
          \<and> conv1d cv (pv\<lparr>keep := keep'\<rparr>) y filters size' rate padding dropout_rate use_bias
            norm_type activation_fn training = Inr oy"
      using y by auto
  }
qed

theorem conv1d_causality_witness:
  "conv1d \<lparr>conv_kernel = (\<lambda>j c o'. 1), conv_bias = (\<lambda>o'. 0)\<rparr>
      \<lparr>norm_vars = initial_variables, keep = (\<lambda>n t c. t \<noteq> 1)\<rparr>
      [[[1], [2], [3]]] None 2 1 ''causal'' (1 / 2) True None None True = Inr [[[2], [0], [10]]]
   \<and> conv1d \<lparr>conv_kernel = (\<lambda>j c o'. 1), conv_bias = (\<lambda>o'. 0)\<rparr>
      \<lparr>norm_vars = initial_variables, keep = (\<lambda>n t c. t \<noteq> 1)\<rparr>
      [[[1], [2], [7]]] None 2 1 ''causal'' (1 / 2) True None None True = Inr [[[2], [0], [18]]]
   \<and> map (take (Suc 1)) [[[2], [0], [10 :: real]]] = map (take (Suc 1)) [[[2], [0], [18]]]
   \<and> (\<exists>ox oy.
        conv1d \<lparr>conv_kernel = (\<lambda>j c o'. 1), conv_bias = (\<lambda>o'. 0)\<rparr>
          \<lparr>norm_vars = initial_variables, keep = (\<lambda>n t c. True)\<rparr>
          [[[1], [2], [3]]] None 2 1 ''causal'' 0 True (Some ''bn'') None False = Inr ox
        \<and> conv1d \<lparr>conv_kernel = (\<lambda>j c o'. 1), conv_bias = (\<lambda>o'. 0)\<rparr>
          \<lparr>norm_vars = initial_variables, keep = (\<lambda>n t c. False)\<rparr>
          [[[1], [2], [7]]] None 2 1 ''causal'' 0 True (Some ''bn'') None False = Inr oy
        \<and> map (take (Suc 1)) ox = map (take (Suc 1)) oy)"
proof -
  let ?cv = "\<lparr>conv_kernel = (\<lambda>j c o'. 1), conv_bias = (\<lambda>o'. 0)\<rparr>"
  let ?pv = "\<lparr>norm_vars = initial_variables, keep = (\<lambda>n t c. t \<noteq> 1)\<rparr>"
  let ?pt = "\<lparr>norm_vars = initial_variables, keep = (\<lambda>n t c. True)\<rparr>"
  let ?x = "[[[1], [2], [3 :: real]]]"
  let ?y = "[[[1], [2], [7 :: real]]]"
  have c: "lower ''causal'' = ''causal''"
    by (simp add: lower_def lower_char_def)
  have xy: "map (take (Suc 1)) ?x = map (take (Suc 1)) ?y"
    by simp
  have ne: "list_all (\<lambda>s. s \<noteq> []) ?x \<and> list_all (\<lambda>s. s \<noteq> []) ?y"
    by simp
  txt \<open>No normalisation, the dropout active with one draw for both calls.\<close>
  have ins: "None \<noteq> Some ''ins''"
    by simp
  have bn: "None = Some ''bn'' \<longrightarrow> \<not> True \<and> (\<forall>c. 0 \<le> moving_variance (bn (norm_vars ?pv)) c)"
    by simp
  have draw: "True \<and> (1 / 2 :: real) \<noteq> 0 \<longrightarrow> (\<lambda>n t c. t \<noteq> 1) = keep ?pv"
    by simp
  have ox: "conv1d ?cv ?pv ?x None 2 1 ''causal'' (1 / 2) True None None True
      = Inr [[[2], [0], [10]]]"
    by (simp add: conv1d_eval)
  have oy: "conv1d ?cv ?pv ?y None 2 1 ''causal'' (1 / 2) True None None True
      = Inr [[[2], [0], [18]]]"
    by (simp add: conv1d_eval)
  from conv1d_causality [OF c ins bn draw xy, where cv = ?cv and filters = None
      and size' = 2 and rate = 1 and use_bias = True and activation_fn = None,
      THEN conjunct2, THEN conjunct1] ox oy
  have a: "map (take (Suc 1)) [[[2], [0], [10 :: real]]] = map (take (Suc 1)) [[[2], [0], [18]]]"
    by simp
  txt \<open>Batch normalisation in inference mode, the dropout inactive, two different draws.\<close>
  have ins': "Some ''bn'' \<noteq> Some ''ins''"
    by simp
  have bn': "Some ''bn'' = Some ''bn'' \<longrightarrow>
      \<not> False \<and> (\<forall>c. 0 \<le> moving_variance (bn (norm_vars ?pt)) c)"
    by (simp add: initial_variables_def)
  have draw': "False \<and> (0 :: real) \<noteq> 0 \<longrightarrow> (\<lambda>n t c. False) = keep ?pt"
    by simp
  note th = conv1d_causality [OF c ins' bn' draw' xy, where cv = ?cv and filters = None
      and size' = 2 and rate = 1 and use_bias = True and activation_fn = None]
  have d: "1 \<le> (2 :: nat) \<and> 1 \<le> (1 :: nat) \<and> (False \<longrightarrow> 0 \<le> (0 :: real) \<and> (0 :: real) < 1)
      \<and> list_all (\<lambda>s. s \<noteq> []) ?x \<and> list_all (\<lambda>s. s \<noteq> []) ?y"
    by simp
  from th d obtain ox' oy' where
    o: "conv1d ?cv ?pt ?x None 2 1 ''causal'' 0 True (Some ''bn'') None False = Inr ox'"
      "conv1d ?cv (?pt\<lparr>keep := (\<lambda>n t c. False)\<rparr>) ?y None 2 1 ''causal'' 0 True (Some ''bn'') None
         False = Inr oy'"
    by blast
  with th have e: "map (take (Suc 1)) ox' = map (take (Suc 1)) oy'"
    by blast
  have upd: "?pt\<lparr>keep := (\<lambda>n t c. False)\<rparr> = \<lparr>norm_vars = initial_variables, keep = (\<lambda>n t c. False)\<rparr>"
    by simp
  from o [unfolded upd] e have b: "\<exists>ox oy.
        conv1d ?cv ?pt ?x None 2 1 ''causal'' 0 True (Some ''bn'') None False = Inr ox
        \<and> conv1d ?cv \<lparr>norm_vars = initial_variables, keep = (\<lambda>n t c. False)\<rparr>
          ?y None 2 1 ''causal'' 0 True (Some ''bn'') None False = Inr oy
        \<and> map (take (Suc 1)) ox = map (take (Suc 1)) oy"
    by blast
  from ox oy a b show ?thesis
    by blast
qed

text \<open>
  The claim as stated fails for the instance normalisation, which takes the mean and the
  variance along the time axis: the two inputs agree at position 0 and differ at position 1,
  and the outputs differ at position 0.
\<close>

theorem conv1d_causality_counterexample:
  "conv1d \<lparr>conv_kernel = (\<lambda>j c o'. 1), conv_bias = (\<lambda>o'. 0)\<rparr>
      \<lparr>norm_vars = initial_variables, keep = (\<lambda>n t c. True)\<rparr>
      [[[1], [1]]] None 1 1 ''causal'' 0 True (Some ''ins'') None True = Inr [[[0], [0]]]
   \<and> conv1d \<lparr>conv_kernel = (\<lambda>j c o'. 1), conv_bias = (\<lambda>o'. 0)\<rparr>
      \<lparr>norm_vars = initial_variables, keep = (\<lambda>n t c. True)\<rparr>
      [[[1], [3]]] None 1 1 ''causal'' 0 True (Some ''ins'') None True
       = Inr [[[- rsqrt (1 + default_epsilon)], [rsqrt (1 + default_epsilon)]]]
   \<and> - rsqrt (1 + default_epsilon) \<noteq> 0
   \<and> map (take (Suc 0)) [[[1], [1 :: real]]] = map (take (Suc 0)) [[[1], [3]]]"
proof (intro conjI)
  show "conv1d \<lparr>conv_kernel = (\<lambda>j c o'. 1), conv_bias = (\<lambda>o'. 0)\<rparr>
      \<lparr>norm_vars = initial_variables, keep = (\<lambda>n t c. True)\<rparr>
      [[[1], [1]]] None 1 1 ''causal'' 0 True (Some ''ins'') None True = Inr [[[0], [0]]]"
    by (simp add: conv1d_eval normalized_def moments_def scale_shift_def reduce_mean_def
          variance_def)
  show "conv1d \<lparr>conv_kernel = (\<lambda>j c o'. 1), conv_bias = (\<lambda>o'. 0)\<rparr>
      \<lparr>norm_vars = initial_variables, keep = (\<lambda>n t c. True)\<rparr>
      [[[1], [3]]] None 1 1 ''causal'' 0 True (Some ''ins'') None True
       = Inr [[[- rsqrt (1 + default_epsilon)], [rsqrt (1 + default_epsilon)]]]"
    by (simp add: conv1d_eval normalized_def moments_def scale_shift_def reduce_mean_def
          variance_def)
  show "- rsqrt (1 + default_epsilon) \<noteq> 0"
    by (simp add: rsqrt_def default_epsilon_def)
  show "map (take (Suc 0)) [[[1], [1 :: real]]] = map (take (Suc 0)) [[[1], [3]]]"
    by simp
qed

text \<open>The batch normalisation in training mode reduces over the time axis as well.\<close>

lemma conv1d_batch_norm_training_not_causal:
  "conv1d \<lparr>conv_kernel = (\<lambda>j c o'. 1), conv_bias = (\<lambda>o'. 0)\<rparr>
      \<lparr>norm_vars = initial_variables, keep = (\<lambda>n t c. True)\<rparr>
      [[[1], [1]]] None 1 1 ''causal'' 0 True (Some ''bn'') None True = Inr [[[0], [0]]]
   \<and> conv1d \<lparr>conv_kernel = (\<lambda>j c o'. 1), conv_bias = (\<lambda>o'. 0)\<rparr>
      \<lparr>norm_vars = initial_variables, keep = (\<lambda>n t c. True)\<rparr>
      [[[1], [3]]] None 1 1 ''causal'' 0 True (Some ''bn'') None True
       = Inr [[[- rsqrt (1001 / 1000)], [rsqrt (1001 / 1000)]]]
   \<and> - rsqrt (1001 / 1000) \<noteq> 0"
  by (simp add: conv1d_eval batch_normalization_def expand_dims_def squeeze_def reduce_mean_def
        variance_def)
     (simp add: rsqrt_def)

text \<open>
  Two evaluations with different dropout draws differ even on the same input: the dropout
  of line 188 is active in training with a rate above 0.
\<close>

lemma conv1d_dropout_draws_differ:
  "conv1d \<lparr>conv_kernel = (\<lambda>j c o'. 1), conv_bias = (\<lambda>o'. 0)\<rparr>
      \<lparr>norm_vars = initial_variables, keep = (\<lambda>n t c. True)\<rparr>
      [[[1], [2]]] None 1 1 ''causal'' (1 / 2) True None None True = Inr [[[2], [4]]]
   \<and> conv1d \<lparr>conv_kernel = (\<lambda>j c o'. 1), conv_bias = (\<lambda>o'. 0)\<rparr>
      \<lparr>norm_vars = initial_variables, keep = (\<lambda>n t c. False)\<rparr>
      [[[1], [2]]] None 1 1 ''causal'' (1 / 2) True None None True = Inr [[[0], [0]]]"
  by (simp add: conv1d_eval)

section \<open>Properties of conv1d_transpose\<close>

lemma deconv_output_length_unit [simp]: "deconv_output_length (Suc 0) (Suc 0) p (Suc 0) = Suc 0"
  by (simp add: deconv_output_length_def)

lemma conv2d_transpose_expand_dims:
  assumes "conv2d_transpose dv (expand_dims x) f (1, k) (1, s) padding ub = Inr y"
  shows "list_all (\<lambda>img. length img = 1) y"
    and "map (\<lambda>img. length (hd img)) y =
           map (\<lambda>seq. deconv_output_length (length seq) k (lower padding) s) x"
  using assms
  by (auto simp: conv2d_transpose_def expand_dims_def Let_def list_all_iff width_def comp_def
        split: if_splits)

lemma conv2d_transpose_defined:
  "1 \<le> k \<Longrightarrow> 1 \<le> s \<Longrightarrow> lower padding = ''same'' \<or> lower padding = ''valid'' \<Longrightarrow>
     \<exists>y. conv2d_transpose dv x4 f (1, k) (1, s) padding ub = Inr y"
  by (auto simp: conv2d_transpose_def Let_def)

lemma squeeze_Inr: "list_all (\<lambda>img. length img = 1) y \<Longrightarrow> squeeze y = Inr (map hd y)"
  by (simp add: squeeze_def)

lemma conv1d_transpose_lengths:
  assumes "conv1d_transpose dv pv x filters k s padding dr nt act tr ub = Inr out"
  shows "map length out = map (\<lambda>seq. deconv_output_length (length seq) k (lower padding) s) x"
proof -
  define f where "f = (case filters of None \<Rightarrow> last_dim x | Some f \<Rightarrow> f)"
  from assms obtain y where y: "conv2d_transpose dv (expand_dims x) f (1, k) (1, s) padding ub = Inr y"
    by (auto simp: conv1d_transpose_def Let_def f_def split: sum.splits)
  note c = conv2d_transpose_expand_dims [OF y]
  from c(1) have sq: "squeeze y = Inr (map hd y)"
    by (rule squeeze_Inr)
  from assms y sq have "post_process pv (map hd y) nt act dr tr = Inr out"
    by (simp add: conv1d_transpose_def Let_def f_def)
  then have "map length out = map length (map hd y)"
    by (rule post_process_lengths)
  with c(2) show ?thesis by (simp add: comp_def)
qed

lemma conv1d_transpose_defined:
  assumes "1 \<le> k" "1 \<le> s" "lower padding = ''same'' \<or> lower padding = ''valid''"
    "tr \<longrightarrow> 0 \<le> dr \<and> dr < 1"
  shows "\<exists>out. conv1d_transpose dv pv x filters k s padding dr nt act tr ub = Inr out"
proof -
  define f where "f = (case filters of None \<Rightarrow> last_dim x | Some f \<Rightarrow> f)"
  obtain y where y: "conv2d_transpose dv (expand_dims x) f (1, k) (1, s) padding ub = Inr y"
    using conv2d_transpose_defined [OF assms(1-3)] by blast
  from conv2d_transpose_expand_dims(1) [OF y] have sq: "squeeze y = Inr (map hd y)"
    by (rule squeeze_Inr)
  obtain out where "post_process pv (map hd y) nt act dr tr = Inr out"
    using post_process_defined [OF assms(4)] by blast
  with y sq show ?thesis
    by (simp add: conv1d_transpose_def Let_def f_def)
qed

text \<open>
  Claim C5 (upsample length formula). \<open>conv1d_transpose\<close> expands the input to height 1,
  runs the transposed convolution with kernel \<open>(1, size)\<close> and strides \<open>(1, stride)\<close>, and
  squeezes the height, which never fails. With the padding \<^verbatim>\<open>same\<close>, whenever it returns a
  tensor every sequence of the result is \<open>stride\<close> times as long as its input sequence, and
  it does return a tensor for a kernel size and a stride of at least 1 and a dropout rate in
  \<open>[0, 1)\<close> when training. A sequence of length 10 with stride 2 gives length 20.
\<close>

theorem conv1d_transpose_time_length:
  "lower padding = ''same'' \<Longrightarrow>
     conv1d_transpose dv pv inputs filters size' stride padding dropout_rate norm_type activation
         training use_bias =
       (case conv2d_transpose dv (expand_dims inputs)
               (case filters of None \<Rightarrow> last_dim inputs | Some f \<Rightarrow> f)
               (1, size') (1, stride) padding use_bias of
          Inl e \<Rightarrow> Inl e
        | Inr tensor \<Rightarrow>
            (case squeeze tensor of
               Inl e \<Rightarrow> Inl e
             | Inr tensor \<Rightarrow> post_process pv tensor norm_type activation dropout_rate training))
     \<and> (\<forall>tensor. conv2d_transpose dv (expand_dims inputs)
               (case filters of None \<Rightarrow> last_dim inputs | Some f \<Rightarrow> f)
               (1, size') (1, stride) padding use_bias = Inr tensor
           \<longrightarrow> squeeze tensor = Inr (map hd tensor))
     \<and> (\<forall>out. conv1d_transpose dv pv inputs filters size' stride padding dropout_rate norm_type
               activation training use_bias = Inr out
           \<longrightarrow> map length out = map (\<lambda>s. length s * stride) inputs)
     \<and> (1 \<le> size' \<and> 1 \<le> stride \<and> (training \<longrightarrow> 0 \<le> dropout_rate \<and> dropout_rate < 1)
           \<longrightarrow> (\<exists>out. conv1d_transpose dv pv inputs filters size' stride padding dropout_rate
                  norm_type activation training use_bias = Inr out))"
proof (intro conjI allI impI)
  assume p: "lower padding = ''same''"
  show "conv1d_transpose dv pv inputs filters size' stride padding dropout_rate norm_type activation
         training use_bias =
       (case conv2d_transpose dv (expand_dims inputs)
               (case filters of None \<Rightarrow> last_dim inputs | Some f \<Rightarrow> f)
               (1, size') (1, stride) padding use_bias of
          Inl e \<Rightarrow> Inl e
        | Inr tensor \<Rightarrow>
            (case squeeze tensor of
               Inl e \<Rightarrow> Inl e
             | Inr tensor \<Rightarrow> post_process pv tensor norm_type activation dropout_rate training))"
    by (simp add: conv1d_transpose_def Let_def)
  {
    fix tensor
    assume "conv2d_transpose dv (expand_dims inputs)
               (case filters of None \<Rightarrow> last_dim inputs | Some f \<Rightarrow> f)
               (1, size') (1, stride) padding use_bias = Inr tensor"
    then have "list_all (\<lambda>img. length img = 1) tensor"
      by (rule conv2d_transpose_expand_dims)
    then show "squeeze tensor = Inr (map hd tensor)"
      by (rule squeeze_Inr)
  }
  {
    fix out
    assume "conv1d_transpose dv pv inputs filters size' stride padding dropout_rate norm_type
               activation training use_bias = Inr out"
    then have "map length out =
        map (\<lambda>seq. deconv_output_length (length seq) size' (lower padding) stride) inputs"
      by (rule conv1d_transpose_lengths)
    with p show "map length out = map (\<lambda>s. length s * stride) inputs"
      by (simp add: deconv_output_length_def)
  }
  {
    assume "1 \<le> size' \<and> 1 \<le> stride \<and> (training \<longrightarrow> 0 \<le> dropout_rate \<and> dropout_rate < 1)"
    with p show "\<exists>out. conv1d_transpose dv pv inputs filters size' stride padding dropout_rate
                  norm_type activation training use_bias = Inr out"
      by (intro conv1d_transpose_defined) simp_all
  }
qed

theorem conv1d_transpose_time_length_witness:
  "\<exists>out. conv1d_transpose \<lparr>deconv_kernel = (\<lambda>jh jw o' c. 1), deconv_bias = (\<lambda>o'. 0)\<rparr>
           \<lparr>norm_vars = initial_variables, keep = (\<lambda>n t c. True)\<rparr>
           [replicate 10 [1]] None 3 2 ''same'' 0 None None True True = Inr out
     \<and> map length out = [20]"
proof -
  let ?dv = "\<lparr>deconv_kernel = (\<lambda>jh jw o' c. 1), deconv_bias = (\<lambda>o'. 0)\<rparr>"
  let ?pv = "\<lparr>norm_vars = initial_variables, keep = (\<lambda>n t c. True)\<rparr>"
  have l: "lower ''same'' = ''same''"
    by (simp add: lower_def lower_char_def)
  note th = conv1d_transpose_time_length [OF l, of ?dv ?pv "[replicate 10 [1]]" None 3 2 0 None None
      True True]
  from th obtain out where o: "conv1d_transpose ?dv ?pv [replicate 10 [1]] None 3 2 ''same'' 0
      None None True True = Inr out"
    by fastforce
  with th have "map length out = map (\<lambda>s. length s * 2) [replicate 10 [1 :: real]]"
    by blast
  with o show ?thesis by simp
qed

end
